theory Spec2Isabelle
  imports Complex_Main "HOL-Library.Word" "HOL-Library.AList"
begin

section \<open>JavaScript strings, numbers and arrays\<close>

text \<open>
  A JavaScript string is a sequence of UTF-16 code units. String literals of the source
  that are plain ASCII are written \<open>ascii ''...''\<close>.
\<close>

type_synonym jsstring = "16 word list"

definition ascii :: "string \<Rightarrow> jsstring" where
  "ascii s = map of_char s"

text \<open>
  \<open>String.prototype.trim\<close> removes WhiteSpace and LineTerminator code units from both
  ends: TAB, LF, VT, FF, CR, SPACE, NBSP, U+1680, U+2000..U+200A, U+2028, U+2029, U+202F,
  U+205F, U+3000 and U+FEFF.
\<close>

definition js_whitespace :: "16 word \<Rightarrow> bool" where
  "js_whitespace u \<longleftrightarrow>
     u \<in> {0x9, 0xA, 0xB, 0xC, 0xD, 0x20, 0xA0, 0x1680, 0x2028, 0x2029, 0x202F, 0x205F,
          0x3000, 0xFEFF}
     \<or> (0x2000 \<le> u \<and> u \<le> 0x200A)"

definition js_trim :: "jsstring \<Rightarrow> jsstring" where
  "js_trim s = rev (dropWhile js_whitespace (rev (dropWhile js_whitespace s)))"

text \<open>The decimal digits of a natural number, and of an integer with its sign.\<close>

fun digits :: "nat \<Rightarrow> jsstring" where
  "digits n = (if n < 10 then [of_nat (48 + n)] else digits (n div 10) @ [of_nat (48 + n mod 10)])"

declare digits.simps [simp del]

definition decimal :: "int \<Rightarrow> jsstring" where
  "decimal n = (if n < 0 then 0x2D # digits (nat (- n)) else digits (nat n))"

text \<open>
  A JavaScript number, where any number can occur: a finite one by its value, or one of
  the three special values. The integers below \<open>2^53\<close> in magnitude are all numbers.
\<close>

datatype number = Finite real | NaN | PosInfinity | NegInfinity

text \<open>
  \<open>Number.prototype.toString\<close>. An integer below \<open>2^53\<close> in magnitude prints as its decimal
  digits, and the special values print as their names. For the other finite numbers the
  platform prints the shortest digits that read back as the same number (\<open>2^64\<close> prints as
  18446744073709552000, one and a half as 1.5), with exponent notation for the large and
  the small; what it prints there is the parameter \<open>beyond\<close>.
\<close>

type_synonym number_printer = "number \<Rightarrow> jsstring"

definition js_toString :: "number_printer \<Rightarrow> number \<Rightarrow> jsstring" where
  "js_toString beyond x =
     (case x of
        Finite r \<Rightarrow>
          if r = of_int \<lfloor>r\<rfloor> \<and> \<bar>r\<bar> < 2 ^ 53 then decimal \<lfloor>r\<rfloor> else beyond x
      | NaN \<Rightarrow> ascii ''NaN''
      | PosInfinity \<Rightarrow> ascii ''Infinity''
      | NegInfinity \<Rightarrow> ascii ''-Infinity'')"

text \<open>
  \<open>xs.slice(start)\<close> with one integer argument: a negative \<open>start\<close> counts from the end
  and is clamped at the beginning, a non-negative one is clamped at the length.
  \<open>slice(-0)\<close> is \<open>slice(0)\<close>.
\<close>

definition js_slice_from :: "int \<Rightarrow> 'a list \<Rightarrow> 'a list" where
  "js_slice_from start xs =
     (let len = int (length xs);
          k = (if start < 0 then max (len + start) 0 else min start len)
      in drop (nat k) xs)"


section \<open>The data model of the chat (types.ts)\<close>

datatype msg_role = User | Model | System

datatype msg_mode = Online | Offline | Theater

record Quote =
  q_id :: jsstring
  q_content :: jsstring
  q_name :: jsstring

record Message =
  m_id :: jsstring
  m_role :: msg_role
  m_content :: jsstring
  m_osContent :: "jsstring option"
  m_timestamp :: int
  m_mode :: "msg_mode option"
  m_scenarioId :: "jsstring option"
  m_isRecalled :: "bool option"
  m_originalContent :: "jsstring option"
  m_quote :: "Quote option"
  m_isHidden :: "bool option"

record MemoryCard =
  mc_id :: jsstring
  mc_location :: "jsstring option"
  mc_event :: jsstring
  mc_status :: "jsstring option"
  mc_content :: jsstring
  mc_timestamp :: int
  mc_selected :: "bool option"

record DiaryEntry =
  de_id :: jsstring
  de_timestamp :: int
  de_title :: jsstring
  de_weather :: jsstring
  de_mood :: jsstring
  de_content :: jsstring
  de_isExpanded :: "bool option"

record FurnaceConfig =
  fc_autoEnabled :: bool
  fc_autoThreshold :: int
  fc_autoScope :: int
  fc_manualScope :: int

record OfflineConfig =
  oc_systemPrompt :: jsstring
  oc_style :: jsstring
  oc_wordCount :: number
  oc_bgUrl :: "jsstring option"
  oc_indicatorColor :: "jsstring option"

record Scenario =
  sc_id :: jsstring
  sc_title :: jsstring
  sc_description :: jsstring
  sc_systemPrompt :: jsstring
  sc_isConnected :: bool
  sc_wallpaper :: "jsstring option"
  sc_contextMemory :: "jsstring option"
  sc_messages :: "Message list option"

record Character =
  c_id :: jsstring
  c_name :: jsstring
  c_remark :: jsstring
  c_avatar :: jsstring
  c_description :: jsstring
  c_personality :: jsstring
  c_systemPrompt :: jsstring
  c_osSystemPrompt :: "jsstring option"
  c_showOS :: "bool option"
  c_useLocalPersona :: bool
  c_userMaskName :: jsstring
  c_userMaskAvatar :: "jsstring option"
  c_userMaskDescription :: "jsstring option"
  c_realTimeMode :: bool
  c_chatBackground :: "jsstring option"
  c_contextMemory :: jsstring
  c_historyCount :: int
  c_furnaceConfig :: FurnaceConfig
  c_offlineConfig :: OfflineConfig
  c_scenarios :: "Scenario list option"
  c_memories :: "MemoryCard list"
  c_messages :: "Message list"
  c_diaries :: "DiaryEntry list"
  c_isPinned :: "bool option"
  c_unread :: "int option"


section \<open>Sending a message (ChatInterface.tsx)\<close>

text \<open>
  The request sent to the completion service is a list of \<open>{role, content}\<close> objects.
  The roles that occur are the three literals below.
\<close>

datatype api_role = ApiSystem | ApiUser | ApiAssistant

record ApiMessage =
  role :: api_role
  content :: jsstring

text \<open>
  A message role read as a request role, as \<open>m.role\<close> is in the branch for roles other than
  \<open>model\<close>.
\<close>

fun api_role_of :: "msg_role \<Rightarrow> api_role" where
  "api_role_of User = ApiUser"
| "api_role_of System = ApiSystem"
| "api_role_of Model = ApiAssistant"

text \<open>The second argument of \<open>interpolatePrompt\<close>: an object literal, as its key/value pairs.\<close>

type_synonym bindings = "(jsstring \<times> jsstring) list"

text \<open>
  \<open>interpolatePrompt\<close> and \<open>generateChatCompletion\<close> are imported from the AI service
  and are parameters of the model. \<open>interpolatePrompt\<close> is taken to return a string for
  every template and every set of bindings. A completion either resolves with the reply
  text or rejects.
\<close>

type_synonym interpolate = "jsstring \<Rightarrow> bindings \<Rightarrow> jsstring"

datatype completion = Resolved jsstring | Rejected

text \<open>The props and the local state of the component that the handler reads or writes.\<close>

record 'st chat_state =
  character :: Character
  settings :: 'st
  inputText :: jsstring
  isGlobalGenerating :: bool

text \<open>
  Truthiness of an optional string: \<open>undefined\<close> and the empty string are falsy. It is what
  \<open>character.offlineConfig?.bgUrl\<close> is tested for; \<open>offlineConfig\<close> is a required field of
  \<open>Character\<close>, so \<open>?.\<close> reads it as \<open>.\<close> does.
\<close>

definition truthy_str :: "jsstring option \<Rightarrow> bool" where
  "truthy_str v = (case v of None \<Rightarrow> False | Some u \<Rightarrow> u \<noteq> [])"

text \<open>
  Modelled from the spec: \<open>onAddMessage\<close> is a callback prop implemented in the application
  shell, which is not among the sources; the chat component only declares and calls it.
  The spec calls it message append: the message is added at the end of the history of the
  character with the given id.
\<close>

definition onAddMessage :: "jsstring \<Rightarrow> Message \<Rightarrow> Character \<Rightarrow> Character" where
  "onAddMessage charId msg c =
     (if c_id c = charId then c\<lparr>c_messages := c_messages c @ [msg]\<rparr> else c)"

definition new_user_message ::
  "number_printer \<Rightarrow> int \<Rightarrow> int \<Rightarrow> Character \<Rightarrow> jsstring \<Rightarrow> Message" where
  "new_user_message beyond t_id t_ts c txt =
     \<lparr>m_id = js_toString beyond (Finite (of_int t_id)), m_role = User, m_content = txt, m_osContent = None,
      m_timestamp = t_ts,
      m_mode = Some (if truthy_str (oc_bgUrl (c_offlineConfig c)) then Offline else Online),
      m_scenarioId = None, m_isRecalled = None, m_originalContent = None, m_quote = None,
      m_isHidden = None\<rparr>"

definition new_ai_message ::
  "number_printer \<Rightarrow> int \<Rightarrow> int \<Rightarrow> msg_mode option \<Rightarrow> jsstring \<Rightarrow> Message" where
  "new_ai_message beyond t_id t_ts userMode responseContent =
     \<lparr>m_id = js_toString beyond (Finite (of_int (t_id + 1))), m_role = Model, m_content = responseContent,
      m_osContent = None, m_timestamp = t_ts, m_mode = userMode,
      m_scenarioId = None, m_isRecalled = None, m_originalContent = None, m_quote = None,
      m_isHidden = None\<rparr>"

definition history :: "Character \<Rightarrow> ApiMessage list" where
  "history c =
     map (\<lambda>m. \<lparr>role = (if m_role m = Model then ApiAssistant else api_role_of (m_role m)),
                content = m_content m\<rparr>)
         (js_slice_from (- c_historyCount c) (c_messages c))"

definition isOfflineMode :: "Character \<Rightarrow> bool" where
  "isOfflineMode c = truthy_str (oc_bgUrl (c_offlineConfig c))"

definition systemPromptTemplate :: "Character \<Rightarrow> jsstring" where
  "systemPromptTemplate c =
     (if isOfflineMode c then oc_systemPrompt (c_offlineConfig c) else c_systemPrompt c)"

definition prompt_bindings :: "number_printer \<Rightarrow> Character \<Rightarrow> bindings" where
  "prompt_bindings beyond c =
     [(ascii ''ai_name'', c_name c),
      (ascii ''user_mask_name'', c_userMaskName c),
      (ascii ''personality'', c_personality c),
      (ascii ''style'', oc_style (c_offlineConfig c)),
      (ascii ''word_count'', js_toString beyond (oc_wordCount (c_offlineConfig c)))]"

definition messagesPayload ::
  "interpolate \<Rightarrow> number_printer \<Rightarrow> Character \<Rightarrow> Message \<Rightarrow> ApiMessage list" where
  "messagesPayload interpolatePrompt beyond c userMsg =
     (let conversation = history c @ [\<lparr>role = ApiUser, content = m_content userMsg\<rparr>];
          systemPrompt = interpolatePrompt (systemPromptTemplate c) (prompt_bindings beyond c)
      in \<lparr>role = ApiSystem, content = systemPrompt\<rparr> # conversation)"

text \<open>
  A call of \<open>generateChatCompletion\<close> that has been issued: its two arguments, and what the
  continuation after \<open>await\<close> keeps from the closure (the character id and the mode of the
  user message).
\<close>

record 'st request =
  rq_payload :: "ApiMessage list"
  rq_settings :: 'st
  rq_charId :: jsstring
  rq_mode :: "msg_mode option"

text \<open>
  \<open>handleSendMessage\<close> up to the \<open>await\<close>, run in a render that shows the current state.
  The four \<open>Date.now()\<close> readings of a turn, which are integers, are arguments. The payload is built from the
  \<open>character\<close> prop, which does not hold the user message yet.
\<close>

definition send_begin ::
  "interpolate \<Rightarrow> number_printer \<Rightarrow> int \<Rightarrow> int \<Rightarrow> 'st chat_state \<Rightarrow>
   'st chat_state \<times> 'st request option" where
  "send_begin interpolatePrompt beyond t1 t2 s =
     (if js_trim (inputText s) = [] \<or> isGlobalGenerating s then (s, None)
      else
        let c = character s;
            userMsg = new_user_message beyond t1 t2 c (inputText s)
        in (s\<lparr>character := onAddMessage (c_id c) userMsg c,
               inputText := [],
               isGlobalGenerating := True\<rparr>,
            Some \<lparr>rq_payload = messagesPayload interpolatePrompt beyond c userMsg,
                  rq_settings = settings s,
                  rq_charId = c_id c,
                  rq_mode = m_mode userMsg\<rparr>))"

text \<open>The rest of the handler, run when the completion settles: \<open>try\<close> tail, \<open>catch\<close>, \<open>finally\<close>.\<close>

definition send_settle ::
  "number_printer \<Rightarrow> int \<Rightarrow> int \<Rightarrow> 'st request \<Rightarrow> completion \<Rightarrow> 'st chat_state \<Rightarrow>
   'st chat_state" where
  "send_settle beyond t3 t4 rq outcome s =
     (case outcome of
        Resolved responseContent \<Rightarrow>
          s\<lparr>character :=
               onAddMessage (rq_charId rq)
                 (new_ai_message beyond t3 t4 (rq_mode rq) responseContent) (character s),
            isGlobalGenerating := False\<rparr>
      | Rejected \<Rightarrow> s\<lparr>isGlobalGenerating := False\<rparr>)"

text \<open>A whole turn, with nothing else happening between the request and its outcome.\<close>

definition handleSendMessage ::
  "interpolate \<Rightarrow> number_printer \<Rightarrow> (ApiMessage list \<Rightarrow> 'st \<Rightarrow> completion) \<Rightarrow>
   int \<Rightarrow> int \<Rightarrow> int \<Rightarrow> int \<Rightarrow> 'st chat_state \<Rightarrow> 'st chat_state" where
  "handleSendMessage interpolatePrompt beyond generateChatCompletion t1 t2 t3 t4 s =
     (case send_begin interpolatePrompt beyond t1 t2 s of
        (s', None) \<Rightarrow> s'
      | (s', Some rq) \<Rightarrow>
          send_settle beyond t3 t4 rq
            (generateChatCompletion (rq_payload rq) (rq_settings rq)) s')"

text \<open>
  The handler is a closure of the render that created it: \<open>inputText\<close>, \<open>character\<close>,
  \<open>settings\<close> and \<open>isGlobalGenerating\<close> are the values that render saw, while
  \<open>onAddMessage\<close>, \<open>setInputText\<close> and \<open>setGlobalGenerating\<close> act on the current state, which
  the next render will show. \<open>send_from_render\<close> is \<open>handleSendMessage\<close> up to the \<open>await\<close>
  with the two told apart: \<open>v\<close> is the state the render saw, \<open>s\<close> the current state.
\<close>

definition send_from_render ::
  "interpolate \<Rightarrow> number_printer \<Rightarrow> int \<Rightarrow> int \<Rightarrow> 'st chat_state \<Rightarrow> 'st chat_state \<Rightarrow>
   'st chat_state \<times> 'st request option" where
  "send_from_render interpolatePrompt beyond t1 t2 v s =
     (if js_trim (inputText v) = [] \<or> isGlobalGenerating v then (s, None)
      else
        let c = character v;
            userMsg = new_user_message beyond t1 t2 c (inputText v)
        in (s\<lparr>character := onAddMessage (c_id c) userMsg (character s),
               inputText := [],
               isGlobalGenerating := True\<rparr>,
            Some \<lparr>rq_payload = messagesPayload interpolatePrompt beyond c userMsg,
                  rq_settings = settings v,
                  rq_charId = c_id c,
                  rq_mode = m_mode userMsg\<rparr>))"

text \<open>
  The component as a transition system: the state the last render saw, the current state,
  and the completion requests that have been issued and have not settled yet. The events
  are a run of the send handler, a request settling, typing into the input box, saving
  the settings panel, and a render, which brings the rendered state up to date.
\<close>

record 'st system =
  rendered :: "'st chat_state"
  chat :: "'st chat_state"
  in_flight :: "'st request list"

datatype event =
  Send int int
| Settle nat completion int int
| Type jsstring
| SaveSettings Character
| Render

fun step :: "interpolate \<Rightarrow> number_printer \<Rightarrow> 'st system \<Rightarrow> event \<Rightarrow> 'st system" where
  "step interpolatePrompt beyond \<sigma> (Send t1 t2) =
     (case send_from_render interpolatePrompt beyond t1 t2 (rendered \<sigma>) (chat \<sigma>) of
        (s', r) \<Rightarrow>
          \<sigma>\<lparr>chat := s', in_flight := in_flight \<sigma> @ (case r of None \<Rightarrow> [] | Some rq \<Rightarrow> [rq])\<rparr>)"
| "step interpolatePrompt beyond \<sigma> (Settle n outcome t3 t4) =
     (if n < length (in_flight \<sigma>)
      then \<sigma>\<lparr>chat := send_settle beyond t3 t4 (in_flight \<sigma> ! n) outcome (chat \<sigma>),
             in_flight := take n (in_flight \<sigma>) @ drop (Suc n) (in_flight \<sigma>)\<rparr>
      else \<sigma>)"
| "step interpolatePrompt beyond \<sigma> (Type typed) = \<sigma>\<lparr>chat := (chat \<sigma>)\<lparr>inputText := typed\<rparr>\<rparr>"
| "step interpolatePrompt beyond \<sigma> (SaveSettings tempCharConfig) =
     \<sigma>\<lparr>chat := (chat \<sigma>)\<lparr>character := tempCharConfig\<rparr>\<rparr>"
| "step interpolatePrompt beyond \<sigma> Render = \<sigma>\<lparr>rendered := chat \<sigma>\<rparr>"


text \<open>A sequence of events in which a render happens before each of them.\<close>

definition run_rerendered ::
  "interpolate \<Rightarrow> number_printer \<Rightarrow> 'st system \<Rightarrow> event list \<Rightarrow> 'st system" where
  "run_rerendered interpolatePrompt beyond \<sigma> evs =
     foldl (\<lambda>\<sigma>' e. step interpolatePrompt beyond (step interpolatePrompt beyond \<sigma>' Render) e)
       \<sigma> evs"

text \<open>The value of a string of decimal digits, read left to right.\<close>

definition decimal_value :: "jsstring \<Rightarrow> nat" where
  "decimal_value ds = foldl (\<lambda>a d. 10 * a + (unat d - 48)) 0 ds"



section \<open>JSON values and the JavaScript operations on them\<close>

text \<open>
  The settings screen handles characters and settings as plain data and tests their shape
  at run time (\<open>Array.isArray\<close>, truthiness, \<open>??\<close>), so they are modelled as JSON values.
  \<open>undefined\<close> is \<open>None\<close> of \<open>json option\<close>. An object is the list of its properties in
  insertion order; a property is looked up with \<open>map_of\<close>. A property that holds
  \<open>undefined\<close> is represented as absent: reading it gives \<open>undefined\<close> either way, and
  \<open>JSON.stringify\<close> leaves it out. Numbers are the finite ones; the code only tests them
  for truthiness.
\<close>

datatype json =
  JNull
| JBool bool
| JNum real
| JStr jsstring
| JArr "json list"
| JObj "(jsstring \<times> json) list"

datatype js_error = TypeError

fun truthy :: "json option \<Rightarrow> bool" where
  "truthy None = False"
| "truthy (Some JNull) = False"
| "truthy (Some (JBool b)) = b"
| "truthy (Some (JNum n)) = (n \<noteq> 0)"
| "truthy (Some (JStr u)) = (u \<noteq> [])"
| "truthy (Some (JArr xs)) = True"
| "truthy (Some (JObj kvs)) = True"

text \<open>
  Reading a property \<open>v.k\<close> of a value that is not \<open>null\<close>. On an array, a string, a number
  or a boolean the result is \<open>undefined\<close>: the names this code reads (\<open>messages\<close>,
  \<open>scenarios\<close>, \<open>settings\<close>, ...) are neither indices nor members of a built-in prototype.
\<close>

fun field :: "json \<Rightarrow> jsstring \<Rightarrow> json option" where
  "field (JObj kvs) k = map_of kvs k"
| "field v k = None"

text \<open>Reading a property of \<open>null\<close> throws.\<close>

definition js_get :: "json \<Rightarrow> jsstring \<Rightarrow> js_error + json option" where
  "js_get v k = (if v = JNull then Inl TypeError else Inr (field v k))"

fun is_array :: "json option \<Rightarrow> bool" where
  "is_array (Some (JArr xs)) = True"
| "is_array v = False"

text \<open>\<open>a || b\<close> and \<open>a ?? b\<close>, where \<open>b\<close> is defined.\<close>

definition js_or :: "json option \<Rightarrow> json \<Rightarrow> json" where
  "js_or a b = (case a of None \<Rightarrow> b | Some v \<Rightarrow> if truthy a then v else b)"

fun js_nullish :: "json option \<Rightarrow> json \<Rightarrow> json" where
  "js_nullish None b = b"
| "js_nullish (Some JNull) b = b"
| "js_nullish (Some v) b = v"

text \<open>
  The own enumerable properties that \<open>{...v}\<close> copies: those of an object; the elements of
  an array and the code units of a string under their indices; none for the rest.
\<close>

fun js_spread :: "json \<Rightarrow> (jsstring \<times> json) list" where
  "js_spread (JObj kvs) = kvs"
| "js_spread (JArr xs) = zip (map digits [0..<length xs]) xs"
| "js_spread (JStr u) = zip (map digits [0..<length u]) (map (\<lambda>x. JStr [x]) u)"
| "js_spread v = []"

text \<open>
  Defining properties one after the other, as an object literal does after a spread: a
  key that exists keeps its place and takes the new value, a new key goes to the end.
  An object has every key once; a property list that repeats a key stands for the object
  with the first occurrence, which is what \<open>map_of\<close> reads and \<open>clearjunk\<close> keeps.
\<close>

definition obj_assign :: "(jsstring \<times> json) list \<Rightarrow> (jsstring \<times> json) list \<Rightarrow> (jsstring \<times> json) list" where
  "obj_assign base props = fold (\<lambda>(k, v). AList.update k v) (AList.clearjunk props) base"

definition obj_put :: "jsstring \<Rightarrow> json option \<Rightarrow> (jsstring \<times> json) list \<Rightarrow> (jsstring \<times> json) list" where
  "obj_put k v kvs = (case v of None \<Rightarrow> AList.delete k kvs | Some x \<Rightarrow> AList.update k x kvs)"

text \<open>\<open>v.slice(start)\<close>: arrays and strings have the method; calling it on anything else throws.\<close>

fun js_slice :: "json option \<Rightarrow> int \<Rightarrow> js_error + json" where
  "js_slice (Some (JArr xs)) start = Inr (JArr (js_slice_from start xs))"
| "js_slice (Some (JStr u)) start = Inr (JStr (js_slice_from start u))"
| "js_slice v start = Inl TypeError"

text \<open>\<open>xs.map(f)\<close> where \<open>f\<close> may throw: elements are visited in order, the first throw ends it.\<close>

fun map_throwing :: "('a \<Rightarrow> js_error + 'b) \<Rightarrow> 'a list \<Rightarrow> js_error + 'b list" where
  "map_throwing f [] = Inr []"
| "map_throwing f (x # xs) =
     (case f x of
        Inl e \<Rightarrow> Inl e
      | Inr y \<Rightarrow> (case map_throwing f xs of Inl e \<Rightarrow> Inl e | Inr ys \<Rightarrow> Inr (y # ys)))"

text \<open>\<open>v?.map(f)\<close>: \<open>undefined\<close> for a nullish \<open>v\<close>; only arrays have the method.\<close>

fun optional_map :: "(json \<Rightarrow> js_error + json) \<Rightarrow> json option \<Rightarrow> js_error + json option" where
  "optional_map f None = Inr None"
| "optional_map f (Some JNull) = Inr None"
| "optional_map f (Some (JArr xs)) =
     (case map_throwing f xs of Inl e \<Rightarrow> Inl e | Inr ys \<Rightarrow> Inr (Some (JArr ys)))"
| "optional_map f (Some v) = Inl TypeError"


section \<open>Backup export and import (the settings screen)\<close>

record BackupData =
  bd_version :: json
  bd_type :: jsstring
  bd_timestamp :: json
  bd_settings :: json
  bd_characters :: json

text \<open>The status line \<open>importMsg\<close> and the alerts, by the message they stand for.\<close>

datatype import_error = EmptyFile | InvalidJson | InvalidStructure | MissingBackupData

datatype import_msg =
  MsgNone
| MsgExportOk
| MsgParsing
| MsgAwaitingConfirm
| MsgError import_error
| MsgReadFailed
| MsgImportOk jsstring
| MsgApplyFailed
| MsgCancelled

datatype alert = AlertExportFailed | AlertImportFailed import_error | AlertReadFailed | AlertApplyFailed

text \<open>
  The state the backup handlers work on. \<open>app_settings\<close> and \<open>app_characters\<close> are the
  props \<open>settings\<close> and \<open>characters\<close>, owned by the application shell.
\<close>

record settings_state =
  app_settings :: json
  app_characters :: "json list"
  localSettings :: json
  importMsg :: import_msg
  pendingImport :: "BackupData option"
  alerts :: "alert list"

text \<open>
  Modelled from the spec: \<open>updateSettings\<close> and \<open>onUpdateCharacters\<close> are callback props
  implemented in the application shell, which is not among the sources; the settings
  screen only declares them. They replace the application's settings and its character
  list by their argument.
\<close>

definition updateSettings :: "json \<Rightarrow> settings_state \<Rightarrow> settings_state" where
  "updateSettings newSettings s = s\<lparr>app_settings := newSettings\<rparr>"

definition onUpdateCharacters :: "json list \<Rightarrow> settings_state \<Rightarrow> settings_state" where
  "onUpdateCharacters chars s = s\<lparr>app_characters := chars\<rparr>"

definition DEFAULT_FURNACE_CONFIG :: "(jsstring \<times> json) list" where
  "DEFAULT_FURNACE_CONFIG =
     [(ascii ''autoEnabled'', JBool False),
      (ascii ''autoThreshold'', JNum 20),
      (ascii ''autoScope'', JNum 30),
      (ascii ''manualScope'', JNum 30)]"

text \<open>
  \<open>DEFAULT_OFFLINE_PROMPT\<close> comes from the constants module and is a parameter. The
  \<open>style\<close> literal is given by its nine code units.
\<close>

definition DEFAULT_OFFLINE_CONFIG :: "jsstring \<Rightarrow> (jsstring \<times> json) list" where
  "DEFAULT_OFFLINE_CONFIG DEFAULT_OFFLINE_PROMPT =
     [(ascii ''systemPrompt'', JStr DEFAULT_OFFLINE_PROMPT),
      (ascii ''style'',
         JStr [0x7EC6, 0x817B, 0x3001, 0x6C89, 0x6D78, 0x3001, 0x5C0F, 0x8BF4, 0x611F]),
      (ascii ''wordCount'', JNum 150),
      (ascii ''bgUrl'', JStr []),
      (ascii ''indicatorColor'', JStr (ascii ''#f59e0b''))]"

subsection \<open>handleExportBackup\<close>

definition export_scenario :: "json \<Rightarrow> js_error + json" where
  "export_scenario s =
     (case js_get s (ascii ''messages'') of
        Inl e \<Rightarrow> Inl e
      | Inr m \<Rightarrow>
          (case (if truthy m then js_slice m (- 50) else Inr (JArr [])) of
             Inl e \<Rightarrow> Inl e
           | Inr ms \<Rightarrow> Inr (JObj (obj_assign (js_spread s) [(ascii ''messages'', ms)]))))"

definition export_character :: "json \<Rightarrow> js_error + json" where
  "export_character c =
     (case js_get c (ascii ''messages'') of
        Inl e \<Rightarrow> Inl e
      | Inr m \<Rightarrow>
          (case (if is_array m then js_slice m (- 50) else Inr (JArr [])) of
             Inl e \<Rightarrow> Inl e
           | Inr ms \<Rightarrow>
               (case optional_map export_scenario (field c (ascii ''scenarios'')) of
                  Inl e \<Rightarrow> Inl e
                | Inr scs \<Rightarrow>
                    Inr (JObj (obj_put (ascii ''scenarios'') scs
                                (obj_assign (js_spread c) [(ascii ''messages'', ms)]))))))"

definition make_backup :: "real \<Rightarrow> json \<Rightarrow> json list \<Rightarrow> js_error + BackupData" where
  "make_backup now stgs chars =
     (case map_throwing export_character chars of
        Inl e \<Rightarrow> Inl e
      | Inr cs \<Rightarrow>
          Inr \<lparr>bd_version = JNum 1, bd_type = ascii ''small_phone_backup'',
               bd_timestamp = JNum now, bd_settings = stgs, bd_characters = JArr cs\<rparr>)"

text \<open>The object that \<open>JSON.stringify\<close> receives.\<close>

definition backup_json :: "BackupData \<Rightarrow> json" where
  "backup_json b =
     JObj [(ascii ''version'', bd_version b),
           (ascii ''type'', JStr (bd_type b)),
           (ascii ''timestamp'', bd_timestamp b),
           (ascii ''settings'', bd_settings b),
           (ascii ''characters'', bd_characters b)]"

text \<open>
  \<open>JSON.stringify\<close> is a parameter. The handler returns the new state and the text of the
  downloaded file, if any. (The timer that clears the status line later is left out.)
\<close>

definition handleExportBackup ::
  "(json \<Rightarrow> jsstring) \<Rightarrow> real \<Rightarrow> settings_state \<Rightarrow> settings_state \<times> jsstring option" where
  "handleExportBackup JSON_stringify now s =
     (case make_backup now (app_settings s) (app_characters s) of
        Inl e \<Rightarrow> (s\<lparr>alerts := alerts s @ [AlertExportFailed]\<rparr>, None)
      | Inr backupData \<Rightarrow>
          (s\<lparr>importMsg := MsgExportOk\<rparr>, Some (JSON_stringify (backup_json backupData))))"

subsection \<open>handleImportFileSelect\<close>

text \<open>\<open>typeof v === 'object'\<close>.\<close>

fun typeof_object :: "json \<Rightarrow> bool" where
  "typeof_object JNull = True"
| "typeof_object (JArr xs) = True"
| "typeof_object (JObj kvs) = True"
| "typeof_object v = False"

text \<open>
  The body of \<open>reader.onload\<close>. \<open>JSON.parse\<close> is a parameter: \<open>None\<close> when it throws.
\<close>

definition parse_backup ::
  "(jsstring \<Rightarrow> json option) \<Rightarrow> real \<Rightarrow> json \<Rightarrow> jsstring \<Rightarrow> import_error + BackupData" where
  "parse_backup JSON_parse now stgs txt =
     (if txt = [] then Inl EmptyFile
      else case JSON_parse txt of
        None \<Rightarrow> Inl InvalidJson
      | Some data \<Rightarrow>
          if \<not> truthy (Some data) \<or> \<not> typeof_object data then Inl InvalidStructure
          else if \<not> truthy (field data (ascii ''settings''))
                  \<and> \<not> truthy (field data (ascii ''characters'')) then Inl MissingBackupData
          else Inr \<lparr>bd_version = js_or (field data (ascii ''version'')) (JNum 1),
                    bd_type = ascii ''small_phone_backup'',
                    bd_timestamp = js_or (field data (ascii ''timestamp'')) (JNum now),
                    bd_settings = js_or (field data (ascii ''settings'')) stgs,
                    bd_characters =
                      (if is_array (field data (ascii ''characters''))
                       then the (field data (ascii ''characters'')) else JArr [])\<rparr>)"

text \<open>
  What the file picker and the reader deliver: no file, a failed read, or the text of the
  file. The handler first shows the status for parsing and clears the pending import; the
  outcome of the read then overwrites the status. Resetting the file input is an effect on
  the page and is left out.
\<close>

datatype file_event = NoFile | ReadError | Loaded jsstring

definition handleImportFileSelect ::
  "(jsstring \<Rightarrow> json option) \<Rightarrow> real \<Rightarrow> file_event \<Rightarrow> settings_state \<Rightarrow> settings_state" where
  "handleImportFileSelect JSON_parse now ev s =
     (case ev of
        NoFile \<Rightarrow> s
      | ReadError \<Rightarrow>
          s\<lparr>importMsg := MsgReadFailed, pendingImport := None,
            alerts := alerts s @ [AlertReadFailed]\<rparr>
      | Loaded txt \<Rightarrow>
          (case parse_backup JSON_parse now (app_settings s) txt of
             Inl err \<Rightarrow>
               s\<lparr>importMsg := MsgError err, pendingImport := None,
                 alerts := alerts s @ [AlertImportFailed err]\<rparr>
           | Inr validBackup \<Rightarrow>
               s\<lparr>importMsg := MsgAwaitingConfirm, pendingImport := Some validBackup\<rparr>))"

subsection \<open>confirmImport\<close>

definition sanitize_character :: "jsstring \<Rightarrow> json \<Rightarrow> js_error + json" where
  "sanitize_character DEFAULT_OFFLINE_PROMPT c =
     (if c = JNull then Inl TypeError
      else Inr (JObj (obj_assign (js_spread c)
        [(ascii ''furnaceConfig'',
            JObj (obj_assign DEFAULT_FURNACE_CONFIG
                    (js_spread (js_or (field c (ascii ''furnaceConfig'')) (JObj []))))),
         (ascii ''offlineConfig'',
            JObj (obj_assign (DEFAULT_OFFLINE_CONFIG DEFAULT_OFFLINE_PROMPT)
                    (js_spread (js_or (field c (ascii ''offlineConfig'')) (JObj []))))),
         (ascii ''scenarios'',
            if is_array (field c (ascii ''scenarios''))
            then the (field c (ascii ''scenarios'')) else JArr []),
         (ascii ''diaries'',
            if is_array (field c (ascii ''diaries''))
            then the (field c (ascii ''diaries'')) else JArr []),
         (ascii ''memories'',
            if is_array (field c (ascii ''memories''))
            then the (field c (ascii ''memories'')) else JArr []),
         (ascii ''messages'',
            if is_array (field c (ascii ''messages''))
            then the (field c (ascii ''messages'')) else JArr []),
         (ascii ''useLocalPersona'', js_nullish (field c (ascii ''useLocalPersona'')) (JBool False)),
         (ascii ''realTimeMode'', js_nullish (field c (ascii ''realTimeMode'')) (JBool False)),
         (ascii ''showOS'', js_nullish (field c (ascii ''showOS'')) (JBool False))])))"

text \<open>
  \<open>time\<close> is the text of \<open>new Date().toLocaleTimeString()\<close>. When sanitizing throws, the
  settings have been applied already and the pending import stays.
\<close>

definition confirmImport :: "jsstring \<Rightarrow> jsstring \<Rightarrow> settings_state \<Rightarrow> settings_state" where
  "confirmImport DEFAULT_OFFLINE_PROMPT time s =
     (case pendingImport s of
        None \<Rightarrow> s
      | Some p \<Rightarrow>
          let s1 = (if truthy (Some (bd_settings p))
                    then (updateSettings (bd_settings p) s)\<lparr>localSettings := bd_settings p\<rparr>
                    else s)
          in case (case bd_characters p of
                     JArr cs \<Rightarrow>
                       (case map_throwing (sanitize_character DEFAULT_OFFLINE_PROMPT) cs of
                          Inl e \<Rightarrow> Inl e
                        | Inr sanitizedChars \<Rightarrow> Inr (onUpdateCharacters sanitizedChars s1))
                   | _ \<Rightarrow> Inr s1) of
               Inl e \<Rightarrow> s1\<lparr>importMsg := MsgApplyFailed, alerts := alerts s1 @ [AlertApplyFailed]\<rparr>
             | Inr s2 \<Rightarrow> s2\<lparr>importMsg := MsgImportOk time, pendingImport := None\<rparr>)"

definition cancelImport :: "settings_state \<Rightarrow> settings_state" where
  "cancelImport s = s\<lparr>pendingImport := None, importMsg := MsgCancelled\<rparr>"



section \<open>Automatic furnace summarization\<close>

text \<open>The last \<open>n\<close> elements of a list.\<close>

definition last_n :: "nat \<Rightarrow> 'a list \<Rightarrow> 'a list" where
  "last_n n xs = drop (length xs - n) xs"

text \<open>
  Modelled from the spec: the function that triggers the furnace is not among the sources;
  only the types \<open>FurnaceConfig\<close> and \<open>MemoryCard\<close> and the field \<open>memories\<close> are. The spec
  speaks of threshold-triggered summarization into memory cards, and the type comments
  say: \<open>autoThreshold\<close>, trigger after X messages; \<open>autoScope\<close>, summarize last Y messages;
  \<open>memories\<close>, long-term furnace memories. The summarizer, a completion request, is a
  parameter.
\<close>

definition furnace_auto :: "(Message list \<Rightarrow> MemoryCard) \<Rightarrow> Character \<Rightarrow> Character" where
  "furnace_auto summarize c =
     (let fc = c_furnaceConfig c in
      if fc_autoEnabled fc \<and> fc_autoThreshold fc \<le> int (length (c_messages c))
      then c\<lparr>c_memories :=
               c_memories c @ [summarize (last_n (nat (fc_autoScope fc)) (c_messages c))]\<rparr>
      else c)"


section \<open>Properties of a backup, in the words of the specification\<close>

text \<open>The elements of a value when it is an array, none otherwise.\<close>

fun array_items :: "json option \<Rightarrow> json list" where
  "array_items (Some (JArr xs)) = xs"
| "array_items v = []"

text \<open>The properties of a value when it is an object, none otherwise.\<close>

fun object_props :: "json option \<Rightarrow> jsstring \<Rightarrow> json option" where
  "object_props (Some (JObj kvs)) = map_of kvs"
| "object_props v = Map.empty"

text \<open>
  What the types \<open>Character\<close> and \<open>Scenario\<close> promise about the fields the export
  traverses: a character is an object whose \<open>scenarios\<close>, when present, is an array of
  objects whose \<open>messages\<close>, when present, is an array.
\<close>

fun typed_scenario :: "json \<Rightarrow> bool" where
  "typed_scenario (JObj kvs) =
     (case map_of kvs (ascii ''messages'') of None \<Rightarrow> True | Some v \<Rightarrow> is_array (Some v))"
| "typed_scenario v = False"

fun typed_character :: "json \<Rightarrow> bool" where
  "typed_character (JObj kvs) =
     (case map_of kvs (ascii ''scenarios'') of
        None \<Rightarrow> True
      | Some (JArr scs) \<Rightarrow> list_all typed_scenario scs
      | Some v \<Rightarrow> False)"
| "typed_character v = False"

text \<open>A config field is typed when it is absent or an object.\<close>

fun optional_object :: "json option \<Rightarrow> bool" where
  "optional_object None = True"
| "optional_object (Some (JObj kvs)) = True"
| "optional_object v = False"

definition typed_configs :: "json \<Rightarrow> bool" where
  "typed_configs c \<longleftrightarrow>
     optional_object (field c (ascii ''furnaceConfig''))
     \<and> optional_object (field c (ascii ''offlineConfig''))"

text \<open>
  \<open>s'\<close> is \<open>s\<close> with its message list cut to the last 50 elements (empty when \<open>s\<close> has
  none), every other field the same.
\<close>

definition truncated_scenario :: "json \<Rightarrow> json \<Rightarrow> bool" where
  "truncated_scenario s s' \<longleftrightarrow>
     field s' (ascii ''messages'')
       = Some (JArr (last_n 50 (array_items (field s (ascii ''messages'')))))
     \<and> (\<forall>k. k \<noteq> ascii ''messages'' \<longrightarrow> field s' k = field s k)"

text \<open>
  \<open>c'\<close> is \<open>c\<close> with its message list cut to the last 50 elements (empty when it is not an
  array), each scenario cut likewise, every other field the same.
\<close>

definition truncated_character :: "json \<Rightarrow> json \<Rightarrow> bool" where
  "truncated_character c c' \<longleftrightarrow>
     field c' (ascii ''messages'')
       = Some (JArr (last_n 50 (array_items (field c (ascii ''messages'')))))
     \<and> (case field c (ascii ''scenarios'') of
          None \<Rightarrow> field c' (ascii ''scenarios'') = None
        | Some v \<Rightarrow>
            (\<exists>scs'. field c' (ascii ''scenarios'') = Some (JArr scs')
                    \<and> list_all2 truncated_scenario (array_items (Some v)) scs'))
     \<and> (\<forall>k. k \<noteq> ascii ''messages'' \<and> k \<noteq> ascii ''scenarios'' \<longrightarrow> field c' k = field c k)"

text \<open>The nine fields that \<open>confirmImport\<close> sanitizes.\<close>

definition sanitized_keys :: "jsstring set" where
  "sanitized_keys =
     {ascii ''furnaceConfig'', ascii ''offlineConfig'', ascii ''scenarios'', ascii ''diaries'',
      ascii ''memories'', ascii ''messages'', ascii ''useLocalPersona'', ascii ''realTimeMode'',
      ascii ''showOS''}"

text \<open>
  A config object after sanitization: every key of the defaults is there, with the
  backup's value where the backup's config has that key and the default otherwise; keys
  the backup has beyond the defaults are kept.
\<close>

definition filled_config :: "(jsstring \<times> json) list \<Rightarrow> json option \<Rightarrow> json option \<Rightarrow> bool" where
  "filled_config defaults given result \<longleftrightarrow>
     (\<exists>kvs. result = Some (JObj kvs) \<and> map_of kvs = map_of defaults ++ object_props given)"

definition is_boolean :: "json option \<Rightarrow> bool" where
  "is_boolean v = (case v of Some (JBool b) \<Rightarrow> True | _ \<Rightarrow> False)"

definition nullish :: "json option \<Rightarrow> bool" where
  "nullish v \<longleftrightarrow> v = None \<or> v = Some JNull"


text \<open>A value has a field when the key is present, whatever it holds.\<close>

definition has_field :: "json \<Rightarrow> jsstring \<Rightarrow> bool" where
  "has_field v k \<longleftrightarrow> field v k \<noteq> None"

text \<open>A config object in which every key of the defaults is present.\<close>

definition has_defaults :: "(jsstring \<times> json) list \<Rightarrow> json option \<Rightarrow> bool" where
  "has_defaults defaults v \<longleftrightarrow>
     (\<exists>kvs. v = Some (JObj kvs) \<and> fst ` set defaults \<subseteq> dom (map_of kvs))"

text \<open>
  What sanitization establishes for a character \<open>c\<close> of a backup and its imported form
  \<open>c'\<close>: complete configs, four array fields, and three flags that are never nullish: a
  flag is \<open>false\<close> where the backup has none or \<open>null\<close>, and the backup's value otherwise
  (so a boolean exactly when the backup's value was a boolean or nullish).
\<close>

definition sanitized_import :: "jsstring \<Rightarrow> json \<Rightarrow> json \<Rightarrow> bool" where
  "sanitized_import DEFAULT_OFFLINE_PROMPT c c' \<longleftrightarrow>
     has_defaults DEFAULT_FURNACE_CONFIG (field c' (ascii ''furnaceConfig''))
     \<and> has_defaults (DEFAULT_OFFLINE_CONFIG DEFAULT_OFFLINE_PROMPT) (field c' (ascii ''offlineConfig''))
     \<and> (\<forall>k \<in> {ascii ''scenarios'', ascii ''diaries'', ascii ''memories'', ascii ''messages''}.
           is_array (field c' k))
     \<and> (\<forall>k \<in> {ascii ''useLocalPersona'', ascii ''realTimeMode'', ascii ''showOS''}.
           \<not> nullish (field c' k)
           \<and> field c' k = (if nullish (field c k) then Some (JBool False) else field c k)
           \<and> (is_boolean (field c' k) \<longleftrightarrow> nullish (field c k) \<or> is_boolean (field c k)))"

text \<open>
  What a character \<open>c\<close> looks like after export, import and confirmation: message lists
  cut to the last 50 elements (a scenario without a list gets an empty one), configs
  filled from the defaults, missing array fields empty, missing flags \<open>false\<close>, and every
  field outside the sanitized ones the same.
\<close>

definition restored_character :: "jsstring \<Rightarrow> json \<Rightarrow> json \<Rightarrow> bool" where
  "restored_character DEFAULT_OFFLINE_PROMPT c c' \<longleftrightarrow>
     field c' (ascii ''messages'')
       = Some (JArr (last_n 50 (array_items (field c (ascii ''messages'')))))
     \<and> (\<exists>scs'. field c' (ascii ''scenarios'') = Some (JArr scs')
              \<and> list_all2 truncated_scenario (array_items (field c (ascii ''scenarios''))) scs')
     \<and> filled_config DEFAULT_FURNACE_CONFIG
          (field c (ascii ''furnaceConfig'')) (field c' (ascii ''furnaceConfig''))
     \<and> filled_config (DEFAULT_OFFLINE_CONFIG DEFAULT_OFFLINE_PROMPT)
          (field c (ascii ''offlineConfig'')) (field c' (ascii ''offlineConfig''))
     \<and> (\<forall>k \<in> {ascii ''diaries'', ascii ''memories''}.
           field c' k = Some (JArr (array_items (field c k))))
     \<and> (\<forall>k \<in> {ascii ''useLocalPersona'', ascii ''realTimeMode'', ascii ''showOS''}.
           field c' k = (if nullish (field c k) then Some (JBool False) else field c k))
     \<and> (\<forall>k. k \<notin> sanitized_keys \<longrightarrow> field c' k = field c k)"


section \<open>Sample data\<close>

definition demo_message :: "msg_role \<Rightarrow> string \<Rightarrow> Message" where
  "demo_message r txt =
     \<lparr>m_id = ascii ''1'', m_role = r, m_content = ascii txt, m_osContent = None,
      m_timestamp = 1, m_mode = Some Online, m_scenarioId = None, m_isRecalled = None,
      m_originalContent = None, m_quote = None, m_isHidden = None\<rparr>"

definition demo_character :: "int \<Rightarrow> jsstring option \<Rightarrow> Message list \<Rightarrow> Character" where
  "demo_character historyCount bgUrl msgs =
     \<lparr>c_id = ascii ''c1'', c_name = ascii ''Mew'', c_remark = ascii ''Mew'', c_avatar = [],
      c_description = [], c_personality = ascii ''calm'',
      c_systemPrompt = ascii ''online prompt'',
      c_osSystemPrompt = None, c_showOS = None, c_useLocalPersona = False,
      c_userMaskName = ascii ''Me'', c_userMaskAvatar = None, c_userMaskDescription = None,
      c_realTimeMode = False, c_chatBackground = None, c_contextMemory = [],
      c_historyCount = historyCount,
      c_furnaceConfig =
        \<lparr>fc_autoEnabled = True, fc_autoThreshold = 2, fc_autoScope = 1, fc_manualScope = 30\<rparr>,
      c_offlineConfig =
        \<lparr>oc_systemPrompt = ascii ''offline prompt'', oc_style = ascii ''novel'',
         oc_wordCount = Finite 150, oc_bgUrl = bgUrl, oc_indicatorColor = None\<rparr>,
      c_scenarios = None, c_memories = [], c_messages = msgs, c_diaries = [],
      c_isPinned = None, c_unread = None\<rparr>"

definition demo_chat :: "Character \<Rightarrow> string \<Rightarrow> unit chat_state" where
  "demo_chat c txt =
     \<lparr>character = c, settings = (), inputText = ascii txt, isGlobalGenerating = False\<rparr>"


text \<open>A stand-in for what the platform prints for the numbers not computed here.\<close>

definition demo_printer :: number_printer where
  "demo_printer x = ascii ''?''"

text \<open>Stand-ins for the AI service: the template comes back unchanged; every request resolves.\<close>

definition echo_interpolate :: interpolate where
  "echo_interpolate template bs = template"

definition echo_completion :: "ApiMessage list \<Rightarrow> unit \<Rightarrow> completion" where
  "echo_completion payload st = Resolved (ascii ''ok'')"

definition demo_summarize :: "Message list \<Rightarrow> MemoryCard" where
  "demo_summarize msgs =
     \<lparr>mc_id = ascii ''m1'', mc_location = None, mc_event = ascii ''talk'', mc_status = None,
      mc_content = concat (map m_content msgs), mc_timestamp = 1, mc_selected = None\<rparr>"

text \<open>A stand-in for \<open>JSON.parse\<close> that knows one document: the text \<open>doc\<close> parses to \<open>v\<close>.\<close>

definition parse_one :: "jsstring \<Rightarrow> json \<Rightarrow> jsstring \<Rightarrow> json option" where
  "parse_one doc v txt = (if txt = doc then Some v else None)"

definition demo_state :: "json list \<Rightarrow> settings_state" where
  "demo_state chars =
     \<lparr>app_settings = JObj [(ascii ''model'', JStr (ascii ''m''))], app_characters = chars,
      localSettings = JObj [(ascii ''model'', JStr (ascii ''m''))], importMsg = MsgNone,
      pendingImport = None, alerts = []\<rparr>"

text \<open>
  A backup file whose one character has the flag \<open>showOS\<close> set to the string \<open>yes\<close>: the
  text of the file, and the value it parses to.
\<close>

definition flag_backup_text :: jsstring where
  "flag_backup_text =
     [123, 34, 99, 104, 97, 114, 97, 99, 116, 101, 114, 115, 34, 58, 91, 123, 34, 115, 104, 111,
      119, 79, 83, 34, 58, 34, 121, 101, 115, 34, 125, 93, 125]"

definition flag_backup :: json where
  "flag_backup =
     JObj [(ascii ''characters'', JArr [JObj [(ascii ''showOS'', JStr (ascii ''yes''))]])]"

definition flag_staged :: settings_state where
  "flag_staged =
     handleImportFileSelect (parse_one flag_backup_text flag_backup) 0
       (Loaded flag_backup_text) (demo_state [])"

definition flag_import :: settings_state where
  "flag_import = confirmImport (ascii ''offline prompt'') (ascii ''12:00'') flag_staged"

text \<open>
  A file that is an object with both fields, \<open>settings\<close> holding the number 0 and
  \<open>characters\<close> the empty string.
\<close>

definition falsy_backup_text :: jsstring where
  "falsy_backup_text =
     [123, 34, 115, 101, 116, 116, 105, 110, 103, 115, 34, 58, 48, 44, 34, 99, 104, 97, 114, 97,
      99, 116, 101, 114, 115, 34, 58, 34, 34, 125]"

definition falsy_backup :: json where
  "falsy_backup = JObj [(ascii ''settings'', JNum 0), (ascii ''characters'', JStr [])]"

text \<open>A character with one message and one connected scenario, which has no message list.\<close>

definition demo_scenario :: json where
  "demo_scenario = JObj [(ascii ''id'', JStr (ascii ''s1'')), (ascii ''isConnected'', JBool True)]"

definition demo_json_character :: json where
  "demo_json_character =
     JObj [(ascii ''id'', JStr (ascii ''c1'')),
           (ascii ''messages'', JArr [JStr (ascii ''m1'')]),
           (ascii ''scenarios'', JArr [demo_scenario])]"

text \<open>
  A stand-in for \<open>JSON.stringify\<close> that knows one document: \<open>v\<close> is written as the text
  \<open>doc\<close>, anything else as the empty text.
\<close>

definition stringify_one :: "jsstring \<Rightarrow> json \<Rightarrow> json \<Rightarrow> jsstring" where
  "stringify_one doc v x = (if x = v then doc else [])"

text \<open>The backup that the export builds for that character at time 5.\<close>

definition demo_exported_character :: json where
  "demo_exported_character =
     JObj [(ascii ''id'', JStr (ascii ''c1'')),
           (ascii ''messages'', JArr [JStr (ascii ''m1'')]),
           (ascii ''scenarios'',
              JArr [JObj [(ascii ''id'', JStr (ascii ''s1'')),
                          (ascii ''isConnected'', JBool True),
                          (ascii ''messages'', JArr [])]])]"

definition demo_backup_data :: BackupData where
  "demo_backup_data =
     \<lparr>bd_version = JNum 1, bd_type = ascii ''small_phone_backup'', bd_timestamp = JNum 5,
      bd_settings = JObj [(ascii ''model'', JStr (ascii ''m''))],
      bd_characters = JArr [demo_exported_character]\<rparr>"

definition demo_backup :: json where
  "demo_backup = backup_json demo_backup_data"

text \<open>
  Exporting that character and importing the file again into an application without
  characters, with the stand-ins for \<open>JSON.stringify\<close> and \<open>JSON.parse\<close>.
\<close>

definition demo_roundtrip :: settings_state where
  "demo_roundtrip =
     (case snd (handleExportBackup (stringify_one (ascii ''backup'') demo_backup) 5
                  (demo_state [demo_json_character])) of
        None \<Rightarrow> demo_state []
      | Some file \<Rightarrow>
          confirmImport (ascii ''offline prompt'') (ascii ''12:00'')
            (handleImportFileSelect (parse_one (ascii ''backup'') demo_backup) 6
               (Loaded file) (demo_state [])))"


section \<open>Auxiliary facts about the chat model\<close>

lemma decimal_value_snoc: "decimal_value (ds @ [d]) = 10 * decimal_value ds + (unat d - 48)"
  by (simp add: decimal_value_def)

lemma unat_digit: "k < 10 \<Longrightarrow> unat (of_nat (48 + k) :: 16 word) = 48 + k"
  by (rule of_nat_inverse [OF refl]) simp

lemma unat_digit': "k < 10 \<Longrightarrow> unat (48 + of_nat k :: 16 word) = 48 + k"
  using unat_digit [of k] by simp

lemma decimal_value_digits: "decimal_value (digits n) = n"
proof (induction n rule: digits.induct)
  case (1 n)
  show ?case
  proof (cases "n < 10")
    case True
    then show ?thesis
      by (subst digits.simps) (simp add: decimal_value_def unat_digit')
  next
    case False
    have "decimal_value (digits n) = 10 * decimal_value (digits (n div 10)) + (unat (of_nat (48 + n mod 10) :: 16 word) - 48)"
      using False by (subst digits.simps) (simp add: decimal_value_snoc)
    also have "\<dots> = 10 * (n div 10) + n mod 10"
      using 1 False by (simp add: unat_digit')
    finally show ?thesis by simp
  qed
qed

lemma digits_are_digits: "d \<in> set (digits n) \<Longrightarrow> 0x30 \<le> d \<and> d \<le> 0x39"
proof (induction n rule: digits.induct)
  case (1 n)
  show ?case
  proof (cases "n < 10")
    case True
    with 1(2) have d: "d = of_nat (48 + n)" by (subst (asm) digits.simps) simp
    have "unat d = 48 + n" using True unfolding d by (rule unat_digit)
    then show ?thesis using True by (simp add: word_le_nat_alt)
  next
    case False
    with 1(2) have "d \<in> set (digits (n div 10)) \<or> d = of_nat (48 + n mod 10)"
      by (subst (asm) digits.simps) auto
    then show ?thesis
    proof
      assume "d \<in> set (digits (n div 10))"
      with 1(1) False show ?thesis by simp
    next
      assume d: "d = of_nat (48 + n mod 10)"
      have "unat d = 48 + n mod 10" unfolding d by (rule unat_digit) simp
      then show ?thesis by (simp add: word_le_nat_alt)
    qed
  qed
qed

lemma digits_nonempty: "digits n \<noteq> []"
  by (subst digits.simps) simp

lemma digits_no_leading_zero: "0 < n \<Longrightarrow> hd (digits n) \<noteq> 0x30"
proof (induction n rule: digits.induct)
  case (1 n)
  show ?case
  proof (cases "n < 10")
    case True
    have "unat (of_nat (48 + n) :: 16 word) = 48 + n" using True by (rule unat_digit)
    with 1(2) have "(of_nat (48 + n) :: 16 word) \<noteq> 0x30" by auto
    with True show ?thesis by (subst digits.simps) simp
  next
    case False
    then have "0 < n div 10" by simp
    with 1(1) False have "hd (digits (n div 10)) \<noteq> 0x30" by simp
    with False show ?thesis
      by (subst digits.simps) (simp add: digits_nonempty)
  qed
qed

lemma decimal_digits:
  "\<exists>ds. decimal n = (if n < 0 then [0x2D] else []) @ ds
       \<and> (\<forall>d\<in>set ds. 0x30 \<le> d \<and> d \<le> 0x39)
       \<and> decimal_value ds = nat \<bar>n\<bar>
       \<and> (1 < length ds \<longrightarrow> hd ds \<noteq> 0x30)"
proof -
  have lead: "1 < length (digits m) \<longrightarrow> hd (digits m) \<noteq> 0x30" for m
  proof (cases "m = 0")
    case True
    then show ?thesis by (subst digits.simps) simp
  next
    case False
    then show ?thesis by (simp add: digits_no_leading_zero)
  qed
  have "(\<forall>d\<in>set (digits m). 0x30 \<le> d \<and> d \<le> 0x39) \<and> decimal_value (digits m) = m
        \<and> (1 < length (digits m) \<longrightarrow> hd (digits m) \<noteq> 0x30)" for m
    using digits_are_digits [of _ m] lead [of m] by (auto simp: decimal_value_digits)
  from this [of "nat \<bar>n\<bar>"] show ?thesis
    by (cases "n < 0") (auto simp: decimal_def abs_if)
qed

lemma js_toString_safe:
  assumes "\<bar>n\<bar> < 2 ^ 53"
  shows "js_toString pr (Finite (of_int n)) = decimal n"
proof -
  from assms have "real_of_int \<bar>n\<bar> < real_of_int (2 ^ 53)"
    by (simp only: of_int_less_iff)
  then have "\<bar>real_of_int n\<bar> < 2 ^ 53" by simp
  then show ?thesis by (simp add: js_toString_def)
qed

lemma js_slice_from_last:
  "0 < n \<Longrightarrow> js_slice_from (- n) xs = drop (length xs - nat n) xs"
  by (simp add: js_slice_from_def Let_def max_def nat_diff_distrib' ) 

lemma send_begin_blocked:
  "js_trim (inputText s) = [] \<or> isGlobalGenerating s \<Longrightarrow> send_begin ip pr t1 t2 s = (s, None)"
  by (simp add: send_begin_def)

lemma send_begin_go:
  "js_trim (inputText s) \<noteq> [] \<Longrightarrow> \<not> isGlobalGenerating s \<Longrightarrow>
   send_begin ip pr t1 t2 s =
     (s\<lparr>character := onAddMessage (c_id (character s)) (new_user_message pr t1 t2 (character s) (inputText s)) (character s),
        inputText := [], isGlobalGenerating := True\<rparr>,
      Some \<lparr>rq_payload = messagesPayload ip pr (character s) (new_user_message pr t1 t2 (character s) (inputText s)),
            rq_settings = settings s, rq_charId = c_id (character s),
            rq_mode = m_mode (new_user_message pr t1 t2 (character s) (inputText s))\<rparr>)"
  by (simp add: send_begin_def Let_def)

lemma send_settle_clears: "\<not> isGlobalGenerating (send_settle pr t3 t4 rq outcome s)"
  by (cases outcome) (simp_all add: send_settle_def)

lemma send_from_render_same:
  "send_from_render ip pr t1 t2 s s = send_begin ip pr t1 t2 s"
  by (simp add: send_from_render_def send_begin_def)

lemma send_from_render_blocked:
  "isGlobalGenerating v \<Longrightarrow> send_from_render ip pr t1 t2 v s = (s, None)"
  by (simp add: send_from_render_def)

lemma send_from_render_sets_flag:
  "send_from_render ip pr t1 t2 v s = (s', Some rq) \<Longrightarrow> isGlobalGenerating s'"
  by (auto simp: send_from_render_def Let_def split: if_splits)

text \<open>
  When a render happens before every event, so that each handler run sees the state the
  previous one left, at most one request is in flight.
\<close>

lemma rerendered_step_inv:
  assumes "in_flight \<sigma> \<noteq> [] \<longrightarrow> isGlobalGenerating (chat \<sigma>) \<and> length (in_flight \<sigma>) \<le> 1"
  shows "in_flight (step ip pr (step ip pr \<sigma> Render) e) \<noteq> [] \<longrightarrow>
         isGlobalGenerating (chat (step ip pr (step ip pr \<sigma> Render) e))
         \<and> length (in_flight (step ip pr (step ip pr \<sigma> Render) e)) \<le> 1"
proof (cases e)
  case (Send t1 t2)
  show ?thesis
  proof (cases "js_trim (inputText (chat \<sigma>)) = [] \<or> isGlobalGenerating (chat \<sigma>)")
    case True
    with assms show ?thesis by (simp add: Send send_from_render_same send_begin_def)
  next
    case False
    with assms have "in_flight \<sigma> = []" by blast
    with False show ?thesis
      by (simp add: Send send_from_render_same send_begin_def Let_def)
  qed
next
  case (Settle n outcome t3 t4)
  show ?thesis
  proof (cases "n < length (in_flight \<sigma>)")
    case True
    with assms have "length (in_flight \<sigma>) \<le> 1" by auto
    with True have "n = 0" "length (in_flight \<sigma>) = 1" by simp_all
    then show ?thesis by (simp add: Settle)
  next
    case False
    with assms show ?thesis by (simp add: Settle)
  qed
next
  case (Type v)
  with assms show ?thesis by simp
next
  case (SaveSettings c)
  with assms show ?thesis by simp
next
  case Render
  with assms show ?thesis by simp
qed

lemma one_request_when_rerendered:
  assumes "in_flight \<sigma> = []"
  shows "length (in_flight (run_rerendered ip pr \<sigma> evs)) \<le> 1"
proof -
  have "in_flight (run_rerendered ip pr \<sigma>' evs) \<noteq> [] \<longrightarrow>
          isGlobalGenerating (chat (run_rerendered ip pr \<sigma>' evs))
          \<and> length (in_flight (run_rerendered ip pr \<sigma>' evs)) \<le> 1"
    if "in_flight \<sigma>' \<noteq> [] \<longrightarrow> isGlobalGenerating (chat \<sigma>') \<and> length (in_flight \<sigma>') \<le> 1"
    for \<sigma>' :: "'a system"
    using that
  proof (induction evs arbitrary: \<sigma>')
    case Nil
    then show ?case by (simp add: run_rerendered_def)
  next
    case (Cons e evs)
    from Cons.IH [OF rerendered_step_inv [OF Cons.prems, of ip pr e]]
    show ?case by (simp add: run_rerendered_def)
  qed
  from this [of \<sigma>] assms show ?thesis
    by (cases "in_flight (run_rerendered ip pr \<sigma> evs)") auto
qed

lemma demo_not_blank: "js_trim (inputText (demo_chat c ''hi'')) \<noteq> []"
  by (simp add: demo_chat_def js_trim_def ascii_def js_whitespace_def)

lemma demo_not_generating: "\<not> isGlobalGenerating (demo_chat c txt)"
  by (simp add: demo_chat_def)


section \<open>Properties of sending a message\<close>

text \<open>
  Claim C1. The payload is the system prompt, the last \<open>historyCount\<close> messages of the
  history and the new user message. The code takes the window with \<open>slice(-historyCount)\<close>:
  with \<open>historyCount = 0\<close> this is \<open>slice(0)\<close>, and the request below carries both earlier
  messages where the claim allows none.
\<close>

theorem history_window_zero:
  "snd (send_begin echo_interpolate demo_printer 7 7
         (demo_chat (demo_character 0 None [demo_message User ''a'', demo_message Model ''b'']) ''hi''))
   = Some \<lparr>rq_payload =
             [\<lparr>role = ApiSystem, content = ascii ''online prompt''\<rparr>,
              \<lparr>role = ApiUser, content = ascii ''a''\<rparr>,
              \<lparr>role = ApiAssistant, content = ascii ''b''\<rparr>,
              \<lparr>role = ApiUser, content = ascii ''hi''\<rparr>],
           rq_settings = (), rq_charId = ascii ''c1'', rq_mode = Some Online\<rparr>"
  by (simp add: send_begin_go demo_not_blank demo_not_generating messagesPayload_def
      history_def js_slice_from_def systemPromptTemplate_def isOfflineMode_def truthy_str_def
      echo_interpolate_def new_user_message_def)
     (simp add: demo_chat_def demo_character_def demo_message_def)

text \<open>
  With a positive \<open>historyCount\<close> the window is the last \<open>historyCount\<close> messages, and the
  payload is the system prompt, that window, and the new user message.
\<close>

lemma history_window_positive:
  "0 < c_historyCount c \<Longrightarrow>
   history c =
     map (\<lambda>m. \<lparr>role = (if m_role m = Model then ApiAssistant else api_role_of (m_role m)),
                content = m_content m\<rparr>)
         (last_n (nat (c_historyCount c)) (c_messages c))"
  by (simp add: history_def js_slice_from_last last_n_def)

lemma payload_window_positive:
  assumes "js_trim (inputText s) \<noteq> []" and "\<not> isGlobalGenerating s"
    and "0 < c_historyCount (character s)"
  shows "\<exists>s' rq. send_begin ip pr t1 t2 s = (s', Some rq)
     \<and> rq_payload rq =
         \<lparr>role = ApiSystem,
          content = ip (systemPromptTemplate (character s)) (prompt_bindings pr (character s))\<rparr>
         # map (\<lambda>m. \<lparr>role = (if m_role m = Model then ApiAssistant else api_role_of (m_role m)),
                       content = m_content m\<rparr>)
             (last_n (nat (c_historyCount (character s))) (c_messages (character s)))
         @ [\<lparr>role = ApiUser, content = inputText s\<rparr>]"
  using assms
  by (simp add: send_begin_go messagesPayload_def history_window_positive new_user_message_def)

text \<open>
  Claim C2. The template given to prompt construction is the offline prompt exactly when
  \<open>offlineConfig.bgUrl\<close> is a non-empty string, and the character's own system prompt
  otherwise; the user message and the reply of the turn carry the mode \<open>offline\<close> or
  \<open>online\<close> accordingly; a message mode is one of \<open>online\<close>, \<open>offline\<close> and \<open>theater\<close>.
\<close>

theorem mode_selects_template:
  assumes "js_trim (inputText s) \<noteq> []" and "\<not> isGlobalGenerating s"
  shows "let c = character s;
             offline = (\<exists>u. oc_bgUrl (c_offlineConfig c) = Some u \<and> u \<noteq> []);
             md = (if offline then Offline else Online)
         in \<exists>s' rq u.
              send_begin ip pr t1 t2 s = (s', Some rq)
            \<and> hd (rq_payload rq)
                = \<lparr>role = ApiSystem,
                   content = ip (if offline then oc_systemPrompt (c_offlineConfig c)
                                 else c_systemPrompt c) (prompt_bindings pr c)\<rparr>
            \<and> c_messages (character s') = c_messages c @ [u] \<and> m_mode u = Some md
            \<and> (\<forall>r. \<exists>a. c_messages (character (send_settle pr t3 t4 rq (Resolved r) s'))
                          = c_messages c @ [u, a] \<and> m_mode a = Some md)
            \<and> (UNIV :: msg_mode set) = {Online, Offline, Theater}"
proof -
  have U: "(UNIV :: msg_mode set) = {Online, Offline, Theater}"
  proof -
    have "x \<in> {Online, Offline, Theater}" for x :: msg_mode by (cases x) simp_all
    then show ?thesis by blast
  qed
  have T: "truthy_str v \<longleftrightarrow> (\<exists>u. v = Some u \<and> u \<noteq> [])" for v
    by (cases v) (simp_all add: truthy_str_def)
  show ?thesis
    using assms U
    by (simp add: Let_def send_begin_go messagesPayload_def systemPromptTemplate_def
        isOfflineMode_def T onAddMessage_def new_user_message_def send_settle_def
        new_ai_message_def)
qed

theorem mode_selects_template_witness:
  "js_trim (inputText (demo_chat (demo_character 5 (Some (ascii ''bg.png'')) []) ''hi'')) \<noteq> []
   \<and> \<not> isGlobalGenerating (demo_chat (demo_character 5 (Some (ascii ''bg.png'')) []) ''hi'')
   \<and> (\<exists>s' rq u.
        send_begin echo_interpolate demo_printer 1 1 (demo_chat (demo_character 5 (Some (ascii ''bg.png'')) []) ''hi'')
          = (s', Some rq)
      \<and> hd (rq_payload rq) = \<lparr>role = ApiSystem, content = ascii ''offline prompt''\<rparr>
      \<and> c_messages (character s') = [u] \<and> m_mode u = Some Offline
      \<and> (\<exists>a. c_messages (character (send_settle demo_printer 2 2 rq (Resolved (ascii ''ok'')) s')) = [u, a]
              \<and> m_mode a = Some Offline))"
proof -
  let ?s = "demo_chat (demo_character 5 (Some (ascii ''bg.png'')) []) ''hi''"
  have h1: "js_trim (inputText ?s) \<noteq> []" by (rule demo_not_blank)
  have h2: "\<not> isGlobalGenerating ?s" by (rule demo_not_generating)
  have bg: "oc_bgUrl (c_offlineConfig (character ?s)) = Some (ascii ''bg.png'')"
    "ascii ''bg.png'' \<noteq> []"
    "oc_systemPrompt (c_offlineConfig (character ?s)) = ascii ''offline prompt''"
    "c_messages (character ?s) = []"
    by (simp_all add: demo_chat_def demo_character_def ascii_def)
  from mode_selects_template [OF h1 h2, of echo_interpolate demo_printer 1 1 2 2]
  obtain s' rq u where *:
    "send_begin echo_interpolate demo_printer 1 1 ?s = (s', Some rq)"
    "hd (rq_payload rq) = \<lparr>role = ApiSystem, content = ascii ''offline prompt''\<rparr>"
    "c_messages (character s') = [u]" "m_mode u = Some Offline"
    "\<forall>r. \<exists>a. c_messages (character (send_settle demo_printer 2 2 rq (Resolved r) s')) = [u, a]
              \<and> m_mode a = Some Offline"
    by (auto simp: Let_def bg echo_interpolate_def)
  with h1 h2 show ?thesis by blast
qed

text \<open>
  Claim C3. When \<open>furnaceConfig.autoEnabled\<close> is set and the number of stored messages has
  reached \<open>furnaceConfig.autoThreshold\<close>, the last \<open>furnaceConfig.autoScope\<close> messages are
  summarized into a new memory card, appended to \<open>character.memories\<close>.
\<close>

theorem furnace_threshold:
  assumes "fc_autoEnabled (c_furnaceConfig c)"
    and "fc_autoThreshold (c_furnaceConfig c) \<le> int (length (c_messages c))"
  shows "c_memories (furnace_auto summarize c)
           = c_memories c
             @ [summarize (drop (length (c_messages c) - nat (fc_autoScope (c_furnaceConfig c)))
                            (c_messages c))]
       \<and> c_messages (furnace_auto summarize c) = c_messages c"
  using assms by (simp add: furnace_auto_def last_n_def)

theorem furnace_threshold_witness:
  "fc_autoEnabled (c_furnaceConfig (demo_character 5 None [demo_message User ''a'', demo_message Model ''b'']))
   \<and> fc_autoThreshold (c_furnaceConfig (demo_character 5 None [demo_message User ''a'', demo_message Model ''b'']))
       \<le> int (length (c_messages (demo_character 5 None [demo_message User ''a'', demo_message Model ''b''])))
   \<and> map mc_content (c_memories (furnace_auto demo_summarize
        (demo_character 5 None [demo_message User ''a'', demo_message Model ''b''])))
     = [ascii ''b'']"
proof -
  let ?c = "demo_character 5 None [demo_message User ''a'', demo_message Model ''b'']"
  have h1: "fc_autoEnabled (c_furnaceConfig ?c)" by (simp add: demo_character_def)
  have h2: "fc_autoThreshold (c_furnaceConfig ?c) \<le> int (length (c_messages ?c))"
    by (simp add: demo_character_def)
  from furnace_threshold [OF h1 h2, of demo_summarize] h1 h2
  show ?thesis
    by (simp add: demo_character_def demo_summarize_def demo_message_def)
qed

text \<open>
  Claim C4. A turn that completes successfully appends exactly two messages to the
  character's history: first the user message with the input text, then the reply with role
  \<open>model\<close>, whose mode is the mode of the user message. The messages that were there before
  stay as they are, in front.
\<close>

theorem message_append:
  assumes "js_trim (inputText s) \<noteq> []" and "\<not> isGlobalGenerating s"
    and "\<exists>rq. snd (send_begin ip pr t1 t2 s) = Some rq
           \<and> gen (rq_payload rq) (rq_settings rq) = Resolved r"
  shows "\<exists>u a. c_messages (character (handleSendMessage ip pr gen t1 t2 t3 t4 s))
             = c_messages (character s) @ [u, a]
           \<and> m_role u = User \<and> m_content u = inputText s
           \<and> m_role a = Model \<and> m_content a = r
           \<and> m_mode a = m_mode u"
  using assms
  by (simp add: handleSendMessage_def send_begin_go send_settle_def onAddMessage_def
      new_user_message_def new_ai_message_def)

theorem message_append_witness:
  "js_trim (inputText (demo_chat (demo_character 5 None [demo_message User ''a'']) ''hi'')) \<noteq> []
   \<and> \<not> isGlobalGenerating (demo_chat (demo_character 5 None [demo_message User ''a'']) ''hi'')
   \<and> (\<exists>u a. c_messages (character (handleSendMessage echo_interpolate demo_printer echo_completion 1 1 2 2
               (demo_chat (demo_character 5 None [demo_message User ''a'']) ''hi'')))
             = [demo_message User ''a'', u, a]
           \<and> m_role u = User \<and> m_content u = ascii ''hi''
           \<and> m_role a = Model \<and> m_content a = ascii ''ok''
           \<and> m_mode a = m_mode u)"
proof -
  let ?s = "demo_chat (demo_character 5 None [demo_message User ''a'']) ''hi''"
  have h1: "js_trim (inputText ?s) \<noteq> []" by (rule demo_not_blank)
  have h2: "\<not> isGlobalGenerating ?s" by (rule demo_not_generating)
  have h3: "\<exists>rq. snd (send_begin echo_interpolate demo_printer 1 1 ?s) = Some rq
             \<and> echo_completion (rq_payload rq) (rq_settings rq) = Resolved (ascii ''ok'')"
    by (simp add: send_begin_go h1 h2 echo_completion_def)
  from message_append [OF h1 h2 h3, of 2 2] h1 h2
  show ?thesis by (simp add: demo_chat_def demo_character_def)
qed


text \<open>
  Claim C7. The system prompt of a send is \<open>interpolatePrompt\<close> applied to the selected
  template and to exactly five bindings: \<open>ai_name\<close>, \<open>user_mask_name\<close>, \<open>personality\<close>,
  \<open>style\<close> and \<open>word_count\<close>, the last one what \<open>toString\<close> prints for
  \<open>offlineConfig.wordCount\<close>: for an integer count below \<open>2^53\<close> in magnitude its decimal
  digits, without a leading zero, after a minus sign for a negative count.
\<close>

theorem prompt_interpolation:
  assumes "js_trim (inputText s) \<noteq> []" and "\<not> isGlobalGenerating s"
  shows "let c = character s; wc = oc_wordCount (c_offlineConfig c)
         in \<exists>s' rq.
              send_begin ip pr t1 t2 s = (s', Some rq)
            \<and> hd (rq_payload rq)
                = \<lparr>role = ApiSystem,
                   content = ip (systemPromptTemplate c)
                     [(ascii ''ai_name'', c_name c),
                      (ascii ''user_mask_name'', c_userMaskName c),
                      (ascii ''personality'', c_personality c),
                      (ascii ''style'', oc_style (c_offlineConfig c)),
                      (ascii ''word_count'', js_toString pr wc)]\<rparr>
            \<and> (\<forall>n. wc = Finite (of_int n) \<and> \<bar>n\<bar> < 2 ^ 53 \<longrightarrow>
                 (\<exists>ds. js_toString pr wc = (if n < 0 then [0x2D] else []) @ ds
                      \<and> (\<forall>d\<in>set ds. 0x30 \<le> d \<and> d \<le> 0x39)
                      \<and> decimal_value ds = nat \<bar>n\<bar>
                      \<and> (1 < length ds \<longrightarrow> hd ds \<noteq> 0x30)))"
proof -
  from assms obtain s' rq where b: "send_begin ip pr t1 t2 s = (s', Some rq)"
    and p: "rq_payload rq
              = messagesPayload ip pr (character s)
                  (new_user_message pr t1 t2 (character s) (inputText s))"
    by (simp add: send_begin_go)
  have h: "hd (rq_payload rq)
          = \<lparr>role = ApiSystem,
             content = ip (systemPromptTemplate (character s))
               [(ascii ''ai_name'', c_name (character s)),
                (ascii ''user_mask_name'', c_userMaskName (character s)),
                (ascii ''personality'', c_personality (character s)),
                (ascii ''style'', oc_style (c_offlineConfig (character s))),
                (ascii ''word_count'',
                 js_toString pr (oc_wordCount (c_offlineConfig (character s))))]\<rparr>"
    unfolding p messagesPayload_def prompt_bindings_def Let_def by simp
  have d: "\<forall>n. wc = Finite (of_int n) \<and> \<bar>n\<bar> < 2 ^ 53 \<longrightarrow>
             (\<exists>ds. js_toString pr wc = (if n < 0 then [0x2D] else []) @ ds
                  \<and> (\<forall>d\<in>set ds. 0x30 \<le> d \<and> d \<le> 0x39)
                  \<and> decimal_value ds = nat \<bar>n\<bar>
                  \<and> (1 < length ds \<longrightarrow> hd ds \<noteq> 0x30))" for wc
  proof (intro allI impI)
    fix n assume "wc = Finite (of_int n) \<and> \<bar>n\<bar> < 2 ^ 53"
    then have "js_toString pr wc = decimal n" by (simp add: js_toString_safe)
    with decimal_digits [of n]
    show "\<exists>ds. js_toString pr wc = (if n < 0 then [0x2D] else []) @ ds
                  \<and> (\<forall>d\<in>set ds. 0x30 \<le> d \<and> d \<le> 0x39)
                  \<and> decimal_value ds = nat \<bar>n\<bar>
                  \<and> (1 < length ds \<longrightarrow> hd ds \<noteq> 0x30)"
      by simp
  qed
  from b h d [of "oc_wordCount (c_offlineConfig (character s))"] show ?thesis
    unfolding Let_def by blast
qed

theorem prompt_interpolation_witness:
  "js_trim (inputText (demo_chat (demo_character 5 None []) ''hi'')) \<noteq> []
   \<and> \<not> isGlobalGenerating (demo_chat (demo_character 5 None []) ''hi'')
   \<and> oc_wordCount (c_offlineConfig (character (demo_chat (demo_character 5 None []) ''hi'')))
       = Finite (of_int 150)
   \<and> \<bar>150 :: int\<bar> < 2 ^ 53
   \<and> (\<exists>s' rq ds.
        send_begin (\<lambda>t bs. concat (map snd bs)) demo_printer 1 1
            (demo_chat (demo_character 5 None []) ''hi'')
          = (s', Some rq)
        \<and> content (hd (rq_payload rq)) = ascii ''MewMecalmnovel'' @ ds
        \<and> decimal_value ds = 150)"
proof -
  let ?s = "demo_chat (demo_character 5 None []) ''hi''"
  have h1: "js_trim (inputText ?s) \<noteq> []" by (rule demo_not_blank)
  have h2: "\<not> isGlobalGenerating ?s" by (rule demo_not_generating)
  have wc: "oc_wordCount (c_offlineConfig (character ?s)) = Finite (of_int 150)"
    by (simp add: demo_chat_def demo_character_def)
  have h3: "\<bar>150 :: int\<bar> < 2 ^ 53" by simp
  have vals: "c_name (character ?s) = ascii ''Mew''" "c_userMaskName (character ?s) = ascii ''Me''"
    "c_personality (character ?s) = ascii ''calm''"
    "oc_style (c_offlineConfig (character ?s)) = ascii ''novel''"
    by (simp_all add: demo_chat_def demo_character_def)
  from prompt_interpolation [OF h1 h2, of "\<lambda>t bs. concat (map snd bs)" demo_printer 1 1]
  obtain s' rq where *:
    "send_begin (\<lambda>t bs. concat (map snd bs)) demo_printer 1 1 ?s = (s', Some rq)"
    "content (hd (rq_payload rq))
       = concat [ascii ''Mew'', ascii ''Me'', ascii ''calm'', ascii ''novel'',
                 js_toString demo_printer (Finite (of_int 150))]"
    "\<forall>n. Finite (of_int 150) = Finite (of_int n) \<and> \<bar>n\<bar> < 2 ^ 53 \<longrightarrow>
       (\<exists>ds. js_toString demo_printer (Finite (of_int 150)) = (if n < 0 then [0x2D] else []) @ ds
            \<and> decimal_value ds = nat \<bar>n\<bar>)"
    unfolding Let_def wc vals by fastforce
  from *(3) h3 obtain ds where
    "js_toString demo_printer (Finite (of_int 150)) = ds" "decimal_value ds = 150"
    by fastforce
  with *(1,2) have "\<exists>s' rq ds.
        send_begin (\<lambda>t bs. concat (map snd bs)) demo_printer 1 1 ?s = (s', Some rq)
        \<and> content (hd (rq_payload rq)) = ascii ''MewMecalmnovel'' @ ds
        \<and> decimal_value ds = 150"
    by (auto simp: ascii_def)
  with h1 h2 wc h3 show ?thesis by blast
qed


section \<open>Auxiliary facts about the backup model\<close>

lemma map_of_fold_update:
  "distinct (map fst ps) \<Longrightarrow>
   map_of (fold (\<lambda>(k, v). AList.update k v) ps base) = map_of base ++ map_of ps"
proof (induction ps arbitrary: base)
  case Nil
  then show ?case by simp
next
  case (Cons p ps)
  obtain k v where p: "p = (k, v)" by (cases p)
  from Cons.prems have nk: "map_of ps k = None" and d: "distinct (map fst ps)"
    by (auto simp: p map_of_eq_None_iff)
  have "map_of (fold (\<lambda>(k, v). AList.update k v) (p # ps) base)
        = map_of (AList.update k v base) ++ map_of ps"
    using Cons.IH [OF d] by (simp add: p)
  also have "\<dots> = map_of base ++ map_of (p # ps)"
    using nk by (auto simp: p update_conv' map_add_def fun_eq_iff split: option.splits)
  finally show ?case .
qed

lemma map_of_obj_assign: "map_of (obj_assign base props) = map_of base ++ map_of props"
  by (simp add: obj_assign_def map_of_fold_update distinct_clearjunk map_of_clearjunk)

lemma map_of_obj_put:
  "map_of (obj_put k v kvs) = (map_of kvs)(k := v)"
  by (cases v) (simp_all add: obj_put_def update_conv' delete_conv')

lemma js_slice_from_50: "js_slice_from (- 50) xs = last_n 50 xs"
  by (simp add: js_slice_from_def last_n_def Let_def max_def nat_diff_distrib')

lemma map_throwing_rel:
  "(\<And>x. x \<in> set xs \<Longrightarrow> \<exists>y. f x = Inr y \<and> R x y) \<Longrightarrow>
   \<exists>ys. map_throwing f xs = Inr ys \<and> list_all2 R xs ys"
proof (induction xs)
  case Nil
  then show ?case by simp
next
  case (Cons x xs)
  then obtain y where y: "f x = Inr y" "R x y" by auto
  from Cons obtain ys where ys: "map_throwing f xs = Inr ys" "list_all2 R xs ys" by auto
  from y ys show ?case by simp
qed

lemma map_throwing_Inr:
  "map_throwing f xs = Inr ys \<Longrightarrow> list_all2 (\<lambda>x y. f x = Inr y) xs ys"
  by (induction xs arbitrary: ys) (auto split: sum.splits)

lemma export_scenario_typed:
  assumes "typed_scenario s"
  shows "\<exists>s'. export_scenario s = Inr s' \<and> truncated_scenario s s'"
proof -
  from assms obtain kvs where s: "s = JObj kvs" by (cases s) auto
  show ?thesis
  proof (cases "map_of kvs (ascii ''messages'')")
    case None
    then show ?thesis
      by (simp add: s export_scenario_def js_get_def truncated_scenario_def
          map_of_obj_assign last_n_def)
  next
    case (Some v)
    with assms s obtain xs where v: "v = JArr xs" by (cases v) auto
    with Some show ?thesis
      by (simp add: s export_scenario_def js_get_def truncated_scenario_def
          map_of_obj_assign js_slice_from_50)
  qed
qed

lemma export_character_typed:
  assumes "typed_character c"
  shows "\<exists>c'. export_character c = Inr c' \<and> truncated_character c c'"
proof -
  from assms obtain kvs where c: "c = JObj kvs" by (cases c) auto
  define ms where "ms = JArr (last_n 50 (array_items (map_of kvs (ascii ''messages''))))"
  have ms: "(if is_array (map_of kvs (ascii ''messages''))
             then js_slice (map_of kvs (ascii ''messages'')) (- 50) else Inr (JArr [])) = Inr ms"
    unfolding ms_def
    by (cases "(map_of kvs (ascii ''messages''))" rule: is_array.cases)
       (simp_all add: js_slice_from_50 last_n_def)
  have neq: "ascii ''scenarios'' \<noteq> ascii ''messages''" by (simp add: ascii_def)
  show ?thesis
  proof (cases "map_of kvs (ascii ''scenarios'')")
    case None
    then show ?thesis
      using neq
      by (simp add: c export_character_def js_get_def ms truncated_character_def
          map_of_obj_put map_of_obj_assign ms_def)
  next
    case (Some v)
    with assms c obtain scs where v: "v = JArr scs" and t: "list_all typed_scenario scs"
      by (cases v) auto
    from t have "\<And>x. x \<in> set scs \<Longrightarrow> \<exists>y. export_scenario x = Inr y \<and> truncated_scenario x y"
      by (simp add: list_all_iff export_scenario_typed)
    from map_throwing_rel [of scs export_scenario truncated_scenario, OF this]
    obtain scs' where scs': "map_throwing export_scenario scs = Inr scs'"
      "list_all2 truncated_scenario scs scs'" by blast
    show ?thesis
      using neq Some v scs'
      by (simp add: c export_character_def js_get_def ms truncated_character_def
          map_of_obj_put map_of_obj_assign ms_def)
  qed
qed

lemma export_character_object:
  "export_character c = Inr c' \<Longrightarrow> \<exists>kvs. c' = JObj kvs"
  by (auto simp: export_character_def split: sum.splits if_splits)

lemma make_backup_typed:
  assumes "list_all typed_character chars"
  shows "\<exists>cs. map_throwing export_character chars = Inr cs
              \<and> list_all2 truncated_character chars cs"
proof -
  from assms have "\<And>x. x \<in> set chars \<Longrightarrow>
      \<exists>y. export_character x = Inr y \<and> truncated_character x y"
    by (simp add: list_all_iff export_character_typed)
  from map_throwing_rel [of chars export_character truncated_character, OF this]
  show ?thesis .
qed

lemma sanitize_character_result:
  "c \<noteq> JNull \<Longrightarrow>
   \<exists>kvs. sanitize_character dop c = Inr (JObj kvs)
     \<and> map_of kvs =
         (map_of (js_spread c))
           (ascii ''furnaceConfig'' \<mapsto>
              JObj (obj_assign DEFAULT_FURNACE_CONFIG
                     (js_spread (js_or (field c (ascii ''furnaceConfig'')) (JObj [])))),
            ascii ''offlineConfig'' \<mapsto>
              JObj (obj_assign (DEFAULT_OFFLINE_CONFIG dop)
                     (js_spread (js_or (field c (ascii ''offlineConfig'')) (JObj [])))),
            ascii ''scenarios'' \<mapsto> JArr (array_items (field c (ascii ''scenarios''))),
            ascii ''diaries'' \<mapsto> JArr (array_items (field c (ascii ''diaries''))),
            ascii ''memories'' \<mapsto> JArr (array_items (field c (ascii ''memories''))),
            ascii ''messages'' \<mapsto> JArr (array_items (field c (ascii ''messages''))),
            ascii ''useLocalPersona'' \<mapsto> js_nullish (field c (ascii ''useLocalPersona'')) (JBool False),
            ascii ''realTimeMode'' \<mapsto> js_nullish (field c (ascii ''realTimeMode'')) (JBool False),
            ascii ''showOS'' \<mapsto> js_nullish (field c (ascii ''showOS'')) (JBool False))"
proof -
  have arr: "(if is_array v then the v else JArr []) = JArr (array_items v)" for v
    by (cases v rule: is_array.cases) simp_all
  assume "c \<noteq> JNull"
  then show ?thesis
    unfolding sanitize_character_def arr
    by (simp add: map_of_obj_assign map_add_def fun_eq_iff ascii_def)
qed

lemma sanitized_keys_iff:
  "k \<notin> sanitized_keys \<longleftrightarrow>
     k \<noteq> ascii ''furnaceConfig'' \<and> k \<noteq> ascii ''offlineConfig'' \<and> k \<noteq> ascii ''scenarios''
     \<and> k \<noteq> ascii ''diaries'' \<and> k \<noteq> ascii ''memories'' \<and> k \<noteq> ascii ''messages''
     \<and> k \<noteq> ascii ''useLocalPersona'' \<and> k \<noteq> ascii ''realTimeMode'' \<and> k \<noteq> ascii ''showOS''"
  by (simp add: sanitized_keys_def)

lemma sanitize_character_fields:
  assumes "sanitize_character dop c = Inr c'"
  shows "field c' (ascii ''furnaceConfig'')
              = Some (JObj (obj_assign DEFAULT_FURNACE_CONFIG
                     (js_spread (js_or (field c (ascii ''furnaceConfig'')) (JObj [])))))"
    and "field c' (ascii ''offlineConfig'')
              = Some (JObj (obj_assign (DEFAULT_OFFLINE_CONFIG dop)
                     (js_spread (js_or (field c (ascii ''offlineConfig'')) (JObj [])))))"
    and "field c' (ascii ''scenarios'') = Some (JArr (array_items (field c (ascii ''scenarios''))))"
    and "field c' (ascii ''diaries'') = Some (JArr (array_items (field c (ascii ''diaries''))))"
    and "field c' (ascii ''memories'') = Some (JArr (array_items (field c (ascii ''memories''))))"
    and "field c' (ascii ''messages'') = Some (JArr (array_items (field c (ascii ''messages''))))"
    and "field c' (ascii ''useLocalPersona'')
                  = Some (js_nullish (field c (ascii ''useLocalPersona'')) (JBool False))"
    and "field c' (ascii ''realTimeMode'')
                  = Some (js_nullish (field c (ascii ''realTimeMode'')) (JBool False))"
    and "field c' (ascii ''showOS'') = Some (js_nullish (field c (ascii ''showOS'')) (JBool False))"
    and "k \<notin> sanitized_keys \<Longrightarrow> field c' k = map_of (js_spread c) k"
proof -
  from assms have nn: "c \<noteq> JNull" by (auto simp: sanitize_character_def)
  from sanitize_character_result [OF nn, of dop] assms obtain kvs where
    c': "c' = JObj kvs" and m: "map_of kvs =
         (map_of (js_spread c))
           (ascii ''furnaceConfig'' \<mapsto>
              JObj (obj_assign DEFAULT_FURNACE_CONFIG
                     (js_spread (js_or (field c (ascii ''furnaceConfig'')) (JObj [])))),
            ascii ''offlineConfig'' \<mapsto>
              JObj (obj_assign (DEFAULT_OFFLINE_CONFIG dop)
                     (js_spread (js_or (field c (ascii ''offlineConfig'')) (JObj [])))),
            ascii ''scenarios'' \<mapsto> JArr (array_items (field c (ascii ''scenarios''))),
            ascii ''diaries'' \<mapsto> JArr (array_items (field c (ascii ''diaries''))),
            ascii ''memories'' \<mapsto> JArr (array_items (field c (ascii ''memories''))),
            ascii ''messages'' \<mapsto> JArr (array_items (field c (ascii ''messages''))),
            ascii ''useLocalPersona'' \<mapsto> js_nullish (field c (ascii ''useLocalPersona'')) (JBool False),
            ascii ''realTimeMode'' \<mapsto> js_nullish (field c (ascii ''realTimeMode'')) (JBool False),
            ascii ''showOS'' \<mapsto> js_nullish (field c (ascii ''showOS'')) (JBool False))"
    by auto
  show "field c' (ascii ''furnaceConfig'')
              = Some (JObj (obj_assign DEFAULT_FURNACE_CONFIG
                     (js_spread (js_or (field c (ascii ''furnaceConfig'')) (JObj [])))))"
    and "field c' (ascii ''offlineConfig'')
              = Some (JObj (obj_assign (DEFAULT_OFFLINE_CONFIG dop)
                     (js_spread (js_or (field c (ascii ''offlineConfig'')) (JObj [])))))"
    and "field c' (ascii ''scenarios'') = Some (JArr (array_items (field c (ascii ''scenarios''))))"
    and "field c' (ascii ''diaries'') = Some (JArr (array_items (field c (ascii ''diaries''))))"
    and "field c' (ascii ''memories'') = Some (JArr (array_items (field c (ascii ''memories''))))"
    and "field c' (ascii ''messages'') = Some (JArr (array_items (field c (ascii ''messages''))))"
    and "field c' (ascii ''useLocalPersona'')
                  = Some (js_nullish (field c (ascii ''useLocalPersona'')) (JBool False))"
    and "field c' (ascii ''realTimeMode'')
                  = Some (js_nullish (field c (ascii ''realTimeMode'')) (JBool False))"
    and "field c' (ascii ''showOS'') = Some (js_nullish (field c (ascii ''showOS'')) (JBool False))"
    by (simp_all add: c' m ascii_def)
  show "field c' k = map_of (js_spread c) k" if "k \<notin> sanitized_keys"
    using that unfolding sanitized_keys_iff by (simp add: c' m)
qed

lemma js_nullish_False:
  "Some (js_nullish v (JBool False)) = (if nullish v then Some (JBool False) else v)"
  by (cases "(v, JBool False)" rule: js_nullish.cases) (simp_all add: nullish_def)

lemma has_defaults_obj_assign: "has_defaults D (Some (JObj (obj_assign D X)))"
proof -
  have "fst ` set D = dom (map_of D)" by (simp add: dom_map_of_conv_image_fst)
  also have "\<dots> \<subseteq> dom (map_of (obj_assign D X))"
    unfolding map_of_obj_assign by auto
  finally show ?thesis unfolding has_defaults_def by blast
qed

lemma sanitize_character_sanitized:
  assumes "sanitize_character dop c = Inr c'"
  shows "sanitized_import dop c c'"
proof -
  note fc = sanitize_character_fields(1) [OF assms]
    and oc = sanitize_character_fields(2) [OF assms]
    and arrs = sanitize_character_fields(3-6) [OF assms]
    and flags = sanitize_character_fields(7-9) [OF assms]
  have flag: "\<not> nullish (Some (js_nullish v (JBool False)))
      \<and> Some (js_nullish v (JBool False)) = (if nullish v then Some (JBool False) else v)
      \<and> (is_boolean (Some (js_nullish v (JBool False))) \<longleftrightarrow> nullish v \<or> is_boolean v)" for v
    by (cases "(v, JBool False)" rule: js_nullish.cases)
       (simp_all add: nullish_def is_boolean_def)
  have p1: "has_defaults DEFAULT_FURNACE_CONFIG (field c' (ascii ''furnaceConfig''))"
    unfolding fc by (rule has_defaults_obj_assign)
  have p2: "has_defaults (DEFAULT_OFFLINE_CONFIG dop) (field c' (ascii ''offlineConfig''))"
    unfolding oc by (rule has_defaults_obj_assign)
  have p3: "\<forall>k \<in> {ascii ''scenarios'', ascii ''diaries'', ascii ''memories'', ascii ''messages''}.
              is_array (field c' k)"
    using arrs by simp
  have p4: "\<forall>k \<in> {ascii ''useLocalPersona'', ascii ''realTimeMode'', ascii ''showOS''}.
           \<not> nullish (field c' k)
           \<and> field c' k = (if nullish (field c k) then Some (JBool False) else field c k)
           \<and> (is_boolean (field c' k) \<longleftrightarrow> nullish (field c k) \<or> is_boolean (field c k))"
  proof (rule ballI)
    fix k assume "k \<in> {ascii ''useLocalPersona'', ascii ''realTimeMode'', ascii ''showOS''}"
    then have k: "field c' k = Some (js_nullish (field c k) (JBool False))"
      using flags by auto
    show "\<not> nullish (field c' k)
           \<and> field c' k = (if nullish (field c k) then Some (JBool False) else field c k)
           \<and> (is_boolean (field c' k) \<longleftrightarrow> nullish (field c k) \<or> is_boolean (field c k))"
      unfolding k by (rule flag)
  qed
  from p1 p2 p3 p4 show ?thesis
    unfolding sanitized_import_def by blast
qed

lemma sanitize_object: "\<exists>c''. sanitize_character dop (JObj kvs) = Inr c''"
  by (simp add: sanitize_character_def)

lemma filled_config_obj_assign:
  assumes "optional_object v"
  shows "filled_config D v (Some (JObj (obj_assign D (js_spread (js_or v (JObj []))))))"
  using assms
  by (cases v rule: optional_object.cases)
     (simp_all add: filled_config_def map_of_obj_assign js_or_def)

lemma restore_character:
  assumes ty: "typed_character c" and cf: "typed_configs c"
    and ex: "export_character c = Inr c'"
    and sa: "sanitize_character dop c' = Inr c''"
  shows "restored_character dop c c''"
proof -
  from export_character_typed [OF ty] ex have tr: "truncated_character c c'" by simp
  from export_character_object [OF ex] obtain kvs' where c': "c' = JObj kvs'" by blast
  then have nn: "c' \<noteq> JNull" by simp
  from tr have same: "\<And>k. k \<noteq> ascii ''messages'' \<Longrightarrow> k \<noteq> ascii ''scenarios''
      \<Longrightarrow> field c' k = field c k"
    and msgs: "field c' (ascii ''messages'')
       = Some (JArr (last_n 50 (array_items (field c (ascii ''messages'')))))"
    by (simp_all add: truncated_character_def)
  from tr have scen: "\<exists>scs'. array_items (field c' (ascii ''scenarios'')) = scs'
       \<and> list_all2 truncated_scenario (array_items (field c (ascii ''scenarios''))) scs'"
    by (auto simp: truncated_character_def split: option.splits)
  have keep: "field c' (ascii ''furnaceConfig'') = field c (ascii ''furnaceConfig'')"
    "field c' (ascii ''offlineConfig'') = field c (ascii ''offlineConfig'')"
    "field c' (ascii ''diaries'') = field c (ascii ''diaries'')"
    "field c' (ascii ''memories'') = field c (ascii ''memories'')"
    "field c' (ascii ''useLocalPersona'') = field c (ascii ''useLocalPersona'')"
    "field c' (ascii ''realTimeMode'') = field c (ascii ''realTimeMode'')"
    "field c' (ascii ''showOS'') = field c (ascii ''showOS'')"
    by (rule same; simp add: ascii_def)+
  note f = sanitize_character_fields [OF sa]
  from f(6) msgs have r1: "field c'' (ascii ''messages'')
       = Some (JArr (last_n 50 (array_items (field c (ascii ''messages'')))))"
    by simp
  from f(3) scen have r2: "\<exists>scs'. field c'' (ascii ''scenarios'') = Some (JArr scs')
              \<and> list_all2 truncated_scenario (array_items (field c (ascii ''scenarios''))) scs'"
    by simp
  from f(1) cf have r3: "filled_config DEFAULT_FURNACE_CONFIG
          (field c (ascii ''furnaceConfig'')) (field c'' (ascii ''furnaceConfig''))"
    by (simp add: keep typed_configs_def filled_config_obj_assign)
  from f(2) cf have r4: "filled_config (DEFAULT_OFFLINE_CONFIG dop)
          (field c (ascii ''offlineConfig'')) (field c'' (ascii ''offlineConfig''))"
    by (simp add: keep typed_configs_def filled_config_obj_assign)
  from f(4,5) have r5: "\<forall>k \<in> {ascii ''diaries'', ascii ''memories''}.
           field c'' k = Some (JArr (array_items (field c k)))"
    by (simp add: keep)
  from f(7,8,9) have r6: "\<forall>k \<in> {ascii ''useLocalPersona'', ascii ''realTimeMode'', ascii ''showOS''}.
           field c'' k = (if nullish (field c k) then Some (JBool False) else field c k)"
    by (simp add: keep js_nullish_False)
  have r7: "\<forall>k. k \<notin> sanitized_keys \<longrightarrow> field c'' k = field c k"
  proof (intro allI impI)
    fix k assume k: "k \<notin> sanitized_keys"
    then have "field c'' k = field c' k"
      by (simp add: f(10) c')
    also from k have "\<dots> = field c k"
      unfolding sanitized_keys_iff by (intro same) simp_all
    finally show "field c'' k = field c k" .
  qed
  from r1 r2 r3 r4 r5 r6 r7 show ?thesis
    unfolding restored_character_def by blast
qed

lemma parse_backup_staged:
  "(\<exists>b. parse_backup P now stgs txt = Inr b) \<longleftrightarrow>
   txt \<noteq> [] \<and> (\<exists>kvs. P txt = Some (JObj kvs)
                 \<and> (truthy (map_of kvs (ascii ''settings''))
                    \<or> truthy (map_of kvs (ascii ''characters''))))"
proof (cases "P txt")
  case None
  then show ?thesis by (simp add: parse_backup_def)
next
  case (Some data)
  then show ?thesis
    by (cases data) (auto simp: parse_backup_def)
qed

lemma parse_backup_of_export:
  assumes "P file = Some (backup_json b)" and "file \<noteq> []"
    and "bd_settings b = JObj st" and "bd_characters b = JArr cs"
  shows "\<exists>b'. parse_backup P now2 stgs file = Inr b'
              \<and> bd_settings b' = JObj st \<and> bd_characters b' = JArr cs"
proof -
  have f: "field (backup_json b) (ascii ''settings'') = Some (JObj st)"
    "field (backup_json b) (ascii ''characters'') = Some (JArr cs)"
    using assms(3,4) by (simp_all add: backup_json_def ascii_def)
  have o: "truthy (Some (backup_json b))" "typeof_object (backup_json b)"
    by (simp_all add: backup_json_def)
  from assms(1,2) o show ?thesis
    by (simp add: parse_backup_def js_or_def f)
qed

lemma falsy_backup_facts:
  "falsy_backup_text \<noteq> []"
  "parse_one falsy_backup_text falsy_backup falsy_backup_text = Some falsy_backup"
  "\<not> truthy (field falsy_backup (ascii ''settings''))"
  "\<not> truthy (field falsy_backup (ascii ''characters''))"
  by (simp_all add: falsy_backup_text_def parse_one_def falsy_backup_def ascii_def)

lemma flag_staged_eval:
  "pendingImport flag_staged
     = Some \<lparr>bd_version = JNum 1, bd_type = ascii ''small_phone_backup'', bd_timestamp = JNum 0,
             bd_settings = JObj [(ascii ''model'', JStr (ascii ''m''))],
             bd_characters = JArr [JObj [(ascii ''showOS'', JStr (ascii ''yes''))]]\<rparr>"
  by (simp add: flag_staged_def handleImportFileSelect_def parse_backup_def parse_one_def
      flag_backup_def flag_backup_text_def demo_state_def js_or_def ascii_def)

lemma flag_import_eval:
  "importMsg flag_import = MsgImportOk (ascii ''12:00'')"
  "field (hd (app_characters flag_import)) (ascii ''showOS'') = Some (JStr (ascii ''yes''))"
  by (simp_all add: flag_import_def confirmImport_def updateSettings_def onUpdateCharacters_def flag_staged_eval
      sanitize_character_def map_of_obj_assign map_add_def js_or_def)
     (simp_all add: ascii_def)

lemma demo_make_backup:
  "make_backup 5 (app_settings (demo_state [demo_json_character]))
     (app_characters (demo_state [demo_json_character])) = Inr demo_backup_data"
proof -
  have s: "export_scenario demo_scenario
             = Inr (JObj [(ascii ''id'', JStr (ascii ''s1'')), (ascii ''isConnected'', JBool True),
                          (ascii ''messages'', JArr [])])"
    by (simp add: export_scenario_def js_get_def demo_scenario_def obj_assign_def ascii_def)
  have c: "export_character demo_json_character = Inr demo_exported_character"
    by (simp add: export_character_def js_get_def demo_json_character_def s obj_put_def
        obj_assign_def js_slice_from_def demo_exported_character_def)
       (simp add: ascii_def)
  show ?thesis
    by (simp add: make_backup_def demo_state_def c demo_backup_data_def)
qed

lemma demo_export:
  "handleExportBackup (stringify_one (ascii ''backup'') demo_backup) 5
     (demo_state [demo_json_character])
   = ((demo_state [demo_json_character])\<lparr>importMsg := MsgExportOk\<rparr>, Some (ascii ''backup''))"
  by (simp add: handleExportBackup_def demo_make_backup stringify_one_def demo_backup_def)

lemma demo_roundtrip_eq:
  "demo_roundtrip = confirmImport (ascii ''offline prompt'') (ascii ''12:00'')
     (handleImportFileSelect (parse_one (ascii ''backup'') demo_backup) 6
        (Loaded (ascii ''backup'')) (demo_state []))"
  unfolding demo_roundtrip_def demo_export by simp

lemma demo_roundtrip_scenarios:
  "array_items (field (hd (app_characters demo_roundtrip)) (ascii ''scenarios''))
     = [JObj [(ascii ''id'', JStr (ascii ''s1'')), (ascii ''isConnected'', JBool True),
              (ascii ''messages'', JArr [])]]"
proof -
  have p: "parse_one (ascii ''backup'') demo_backup (ascii ''backup'') = Some (backup_json demo_backup_data)"
    by (simp add: parse_one_def demo_backup_def)
  have ne: "ascii ''backup'' \<noteq> []" by (simp add: ascii_def)
  have bs: "bd_settings demo_backup_data = JObj [(ascii ''model'', JStr (ascii ''m''))]"
    "bd_characters demo_backup_data = JArr [demo_exported_character]"
    by (simp_all add: demo_backup_data_def)
  from parse_backup_of_export [of "parse_one (ascii ''backup'') demo_backup" "ascii ''backup''"
      demo_backup_data _ _ 6 "app_settings (demo_state [])"] p ne bs
  obtain b' where b': "parse_backup (parse_one (ascii ''backup'') demo_backup) 6
        (app_settings (demo_state [])) (ascii ''backup'') = Inr b'"
    "bd_characters b' = JArr [demo_exported_character]" by blast
  obtain c'' where c'': "sanitize_character (ascii ''offline prompt'') demo_exported_character = Inr c''"
    using sanitize_object unfolding demo_exported_character_def by blast
  have "app_characters demo_roundtrip = [c'']"
    unfolding demo_roundtrip_eq
    by (simp add: confirmImport_def updateSettings_def onUpdateCharacters_def handleImportFileSelect_def b' c'' Let_def)
  moreover have "field demo_exported_character (ascii ''scenarios'')
      = Some (JArr [JObj [(ascii ''id'', JStr (ascii ''s1'')), (ascii ''isConnected'', JBool True),
              (ascii ''messages'', JArr [])]])"
    by (simp add: demo_exported_character_def ascii_def)
  ultimately show ?thesis
    by (simp add: sanitize_character_fields(3) [OF c''])
qed


section \<open>Properties of backup export and import\<close>

text \<open>
  Claim C8. For characters typed as the export expects, \<open>handleExportBackup\<close> produces a
  backup whose characters are the input characters with each message list replaced by its
  last 50 elements (the empty list when the field is not an array) and each scenario's
  message list by its last 50 elements (the empty list when the scenario has none); every
  other field of every character and scenario, and the settings, are passed on unchanged.
  The downloaded file is that backup, serialized.
\<close>

theorem export_truncation_frame:
  assumes "list_all typed_character (app_characters s)"
  shows "\<exists>cs. make_backup now (app_settings s) (app_characters s)
                 = Inr \<lparr>bd_version = JNum 1, bd_type = ascii ''small_phone_backup'',
                        bd_timestamp = JNum now, bd_settings = app_settings s,
                        bd_characters = JArr cs\<rparr>
              \<and> list_all2 truncated_character (app_characters s) cs
              \<and> handleExportBackup JSON_stringify now s
                 = (s\<lparr>importMsg := MsgExportOk\<rparr>,
                    Some (JSON_stringify (JObj
                      [(ascii ''version'', JNum 1),
                       (ascii ''type'', JStr (ascii ''small_phone_backup'')),
                       (ascii ''timestamp'', JNum now),
                       (ascii ''settings'', app_settings s),
                       (ascii ''characters'', JArr cs)])))"
proof -
  from make_backup_typed [OF assms] obtain cs where
    cs: "map_throwing export_character (app_characters s) = Inr cs"
    "list_all2 truncated_character (app_characters s) cs" by blast
  then show ?thesis
    by (simp add: make_backup_def handleExportBackup_def backup_json_def)
qed

theorem export_truncation_frame_witness:
  "list_all typed_character (app_characters (demo_state [demo_json_character]))
   \<and> (\<exists>cs. make_backup 5 (app_settings (demo_state [demo_json_character])) [demo_json_character]
                 = Inr \<lparr>bd_version = JNum 1, bd_type = ascii ''small_phone_backup'',
                        bd_timestamp = JNum 5,
                        bd_settings = app_settings (demo_state [demo_json_character]),
                        bd_characters = JArr cs\<rparr>
              \<and> list_all2 truncated_character [demo_json_character] cs)"
proof -
  let ?s = "demo_state [demo_json_character]"
  have chars: "app_characters ?s = [demo_json_character]" by (simp add: demo_state_def)
  have h1: "list_all typed_character (app_characters ?s)"
    unfolding chars by (simp add: demo_json_character_def demo_scenario_def ascii_def)
  from export_truncation_frame [OF h1, of 5 "stringify_one (ascii ''backup'') demo_backup"] h1
  show ?thesis unfolding chars by blast
qed

text \<open>
  Claim C9, amended. A selected file is staged for confirmation if and only if its content
  is non-empty, parses as JSON, is an object, and at least one of its fields \<open>settings\<close>
  and \<open>characters\<close> holds a truthy value. Otherwise an error is reported and nothing is
  staged. In both cases, and when the file cannot be read, the application's settings and
  characters stay as they are: staging changes only the status line and the pending import.
\<close>

theorem import_validation:
  "let s' = handleImportFileSelect JSON_parse now (Loaded txt) s;
       staged = (txt \<noteq> [] \<and> (\<exists>kvs. JSON_parse txt = Some (JObj kvs)
                   \<and> (truthy (map_of kvs (ascii ''settings''))
                      \<or> truthy (map_of kvs (ascii ''characters'')))))
   in (pendingImport s' \<noteq> None \<longleftrightarrow> staged)
    \<and> (staged \<longrightarrow> (\<exists>b. s' = s\<lparr>importMsg := MsgAwaitingConfirm, pendingImport := Some b\<rparr>))
    \<and> (\<not> staged \<longrightarrow>
         (\<exists>e. s' = s\<lparr>importMsg := MsgError e, pendingImport := None,
                      alerts := alerts s @ [AlertImportFailed e]\<rparr>))
    \<and> app_settings s' = app_settings s \<and> app_characters s' = app_characters s
    \<and> pendingImport (handleImportFileSelect JSON_parse now ReadError s) = None
    \<and> app_settings (handleImportFileSelect JSON_parse now ReadError s) = app_settings s
    \<and> app_characters (handleImportFileSelect JSON_parse now ReadError s) = app_characters s"
proof (cases "parse_backup JSON_parse now (app_settings s) txt")
  case (Inl e)
  with parse_backup_staged [of JSON_parse now "app_settings s" "txt"]
  have "\<not> (txt \<noteq> [] \<and> (\<exists>kvs. JSON_parse txt = Some (JObj kvs)
                   \<and> (truthy (map_of kvs (ascii ''settings''))
                      \<or> truthy (map_of kvs (ascii ''characters'')))))"
    by simp
  with Inl show ?thesis
    unfolding Let_def by (auto simp: handleImportFileSelect_def)
next
  case (Inr b)
  with parse_backup_staged [of JSON_parse now "app_settings s" "txt"]
  have "txt \<noteq> [] \<and> (\<exists>kvs. JSON_parse txt = Some (JObj kvs)
                   \<and> (truthy (map_of kvs (ascii ''settings''))
                      \<or> truthy (map_of kvs (ascii ''characters''))))"
    by simp
  with Inr show ?thesis
    unfolding Let_def by (auto simp: handleImportFileSelect_def)
qed

text \<open>
  Claim C9 as stated, that having one of the fields \<open>settings\<close> and \<open>characters\<close> is enough,
  fails for a file that is an object with both fields holding falsy values (the number 0
  and the empty string): it is rejected.
\<close>

theorem import_validation_counterexample:
  "falsy_backup_text \<noteq> []
   \<and> parse_one falsy_backup_text falsy_backup falsy_backup_text
       = Some (JObj [(ascii ''settings'', JNum 0), (ascii ''characters'', JStr [])])
   \<and> has_field falsy_backup (ascii ''settings'')
   \<and> has_field falsy_backup (ascii ''characters'')
   \<and> pendingImport (handleImportFileSelect (parse_one falsy_backup_text falsy_backup) 0
        (Loaded falsy_backup_text) (demo_state [])) = None"
  by (simp add: handleImportFileSelect_def parse_backup_def falsy_backup_facts has_field_def)
     (simp add: falsy_backup_def ascii_def parse_one_def)

theorem import_validation_witness:
  "pendingImport (handleImportFileSelect (parse_one flag_backup_text flag_backup) 0
      (Loaded flag_backup_text) (demo_state [])) \<noteq> None
   \<and> (\<exists>e. handleImportFileSelect (parse_one falsy_backup_text falsy_backup) 0
              (Loaded falsy_backup_text) (demo_state [])
            = (demo_state [])\<lparr>importMsg := MsgError e, pendingImport := None,
                 alerts := alerts (demo_state []) @ [AlertImportFailed e]\<rparr>)"
proof -
  have a: "flag_backup_text \<noteq> [] \<and> (\<exists>kvs. parse_one flag_backup_text flag_backup flag_backup_text = Some (JObj kvs)
                   \<and> (truthy (map_of kvs (ascii ''settings''))
                      \<or> truthy (map_of kvs (ascii ''characters''))))"
    by (simp add: flag_backup_text_def parse_one_def flag_backup_def ascii_def)
  have b: "\<not> (falsy_backup_text \<noteq> [] \<and> (\<exists>kvs. parse_one falsy_backup_text falsy_backup falsy_backup_text = Some (JObj kvs)
                   \<and> (truthy (map_of kvs (ascii ''settings''))
                      \<or> truthy (map_of kvs (ascii ''characters'')))))"
    by (simp add: parse_one_def falsy_backup_def ascii_def)
  from import_validation [of "parse_one flag_backup_text flag_backup" 0 flag_backup_text "demo_state []"] a
  have 1: "pendingImport (handleImportFileSelect (parse_one flag_backup_text flag_backup) 0
      (Loaded flag_backup_text) (demo_state [])) \<noteq> None"
    unfolding Let_def by blast
  from import_validation [of "parse_one falsy_backup_text falsy_backup" 0 falsy_backup_text "demo_state []"] b
  have 2: "\<exists>e. handleImportFileSelect (parse_one falsy_backup_text falsy_backup) 0
              (Loaded falsy_backup_text) (demo_state [])
            = (demo_state [])\<lparr>importMsg := MsgError e, pendingImport := None,
                 alerts := alerts (demo_state []) @ [AlertImportFailed e]\<rparr>"
    unfolding Let_def by blast
  from 1 2 show ?thesis by blast
qed

text \<open>
  Claim C10, amended. After a successful \<open>confirmImport\<close>, every imported character has a
  \<open>furnaceConfig\<close> and an \<open>offlineConfig\<close> in which every key of the defaults is present, its
  \<open>scenarios\<close>, \<open>diaries\<close>, \<open>memories\<close> and \<open>messages\<close> are arrays, and its \<open>useLocalPersona\<close>,
  \<open>realTimeMode\<close> and \<open>showOS\<close> are never \<open>undefined\<close> or \<open>null\<close>: \<open>false\<close> where the backup had
  none, and the backup's own value otherwise, so booleans exactly when the backup's values
  were booleans or missing.
\<close>

theorem import_sanitization:
  assumes "pendingImport s = Some p" and "bd_characters p = JArr cs"
    and "importMsg (confirmImport dop time s) = MsgImportOk time"
  shows "list_all2 (sanitized_import dop) cs (app_characters (confirmImport dop time s))"
proof (cases "map_throwing (sanitize_character dop) cs")
  case (Inl e)
  with assms show ?thesis by (simp add: confirmImport_def updateSettings_def onUpdateCharacters_def Let_def)
next
  case (Inr cs')
  from map_throwing_Inr [OF Inr]
  have "list_all2 (sanitized_import dop) cs cs'"
    by (rule list_all2_mono) (rule sanitize_character_sanitized)
  with assms(1,2) Inr show ?thesis by (simp add: confirmImport_def updateSettings_def onUpdateCharacters_def Let_def)
qed

text \<open>
  Claim C10 as stated, that the three flags are booleans after \<open>confirmImport\<close>, fails for
  a backup whose character has \<open>showOS\<close> set to a string: \<open>??\<close> replaces only \<open>undefined\<close> and
  \<open>null\<close>, and the string is imported as it is.
\<close>

theorem import_sanitization_counterexample:
  "importMsg flag_import = MsgImportOk (ascii ''12:00'')
   \<and> \<not> is_boolean (field (hd (app_characters flag_import)) (ascii ''showOS''))"
  by (simp add: flag_import_eval is_boolean_def)

theorem import_sanitization_witness:
  "pendingImport flag_staged
     = Some \<lparr>bd_version = JNum 1, bd_type = ascii ''small_phone_backup'', bd_timestamp = JNum 0,
             bd_settings = JObj [(ascii ''model'', JStr (ascii ''m''))],
             bd_characters = JArr [JObj [(ascii ''showOS'', JStr (ascii ''yes''))]]\<rparr>
   \<and> importMsg (confirmImport (ascii ''offline prompt'') (ascii ''12:00'') flag_staged)
       = MsgImportOk (ascii ''12:00'')
   \<and> list_all2 (sanitized_import (ascii ''offline prompt''))
        [JObj [(ascii ''showOS'', JStr (ascii ''yes''))]]
        (app_characters (confirmImport (ascii ''offline prompt'') (ascii ''12:00'') flag_staged))"
proof -
  have h3: "importMsg (confirmImport (ascii ''offline prompt'') (ascii ''12:00'') flag_staged)
              = MsgImportOk (ascii ''12:00'')"
    using flag_import_eval(1) by (simp add: flag_import_def)
  from import_sanitization [OF flag_staged_eval _ h3] flag_staged_eval h3
  show ?thesis by simp
qed

text \<open>
  Claim C6, amended. Let the characters be typed as the export expects, with configs that are
  objects where present, and the settings an object; let the platform's \<open>JSON.parse\<close> read
  back the document that \<open>JSON.stringify\<close> wrote into the file. Then exporting, selecting the
  file and confirming, in whatever state the application is by then, restores the same
  settings and the same characters except that each character's and each scenario's
  message list is cut to its last 50 elements, a scenario without a message list receiving
  an empty one, and that missing per-character fields are filled with the sanitization
  defaults.
\<close>

theorem backup_roundtrip:
  assumes ty: "list_all typed_character (app_characters s)"
    and cf: "list_all typed_configs (app_characters s)"
    and st: "app_settings s = JObj st"
    and mk: "make_backup now (app_settings s) (app_characters s) = Inr b"
    and ne: "JSON_stringify (backup_json b) \<noteq> []"
    and rt: "JSON_parse (JSON_stringify (backup_json b)) = Some (backup_json b)"
  shows "let file = JSON_stringify (backup_json b);
             s3 = confirmImport dop time
                    (handleImportFileSelect JSON_parse now2 (Loaded file) s2)
         in snd (handleExportBackup JSON_stringify now s) = Some file
          \<and> app_settings s3 = app_settings s
          \<and> list_all2 (restored_character dop) (app_characters s) (app_characters s3)
          \<and> pendingImport s3 = None"
proof -
  from mk obtain cs where
    cs: "map_throwing export_character (app_characters s) = Inr cs"
    and bs: "bd_settings b = JObj st" "bd_characters b = JArr cs"
    by (auto simp: make_backup_def st split: sum.splits)
  let ?file = "JSON_stringify (backup_json b)"
  from mk have ex: "snd (handleExportBackup JSON_stringify now s) = Some ?file"
    by (simp add: handleExportBackup_def)
  from parse_backup_of_export [of JSON_parse ?file b st cs now2 "app_settings s2"] rt ne bs
  obtain b' where b': "parse_backup JSON_parse now2 (app_settings s2) ?file = Inr b'"
    "bd_settings b' = JObj st" "bd_characters b' = JArr cs" by blast
  have E: "list_all2 (\<lambda>c c'. export_character c = Inr c') (app_characters s) cs"
    by (rule map_throwing_Inr [OF cs])
  have "\<exists>y. sanitize_character dop c' = Inr y \<and> sanitize_character dop c' = Inr y"
    if "c' \<in> set cs" for c'
  proof -
    from that E obtain c where "export_character c = Inr c'"
      by (auto simp: list_all2_conv_all_nth in_set_conv_nth)
    from export_character_object [OF this] obtain kvs where "c' = JObj kvs" by blast
    with sanitize_object [of dop kvs] show ?thesis by simp
  qed
  from map_throwing_rel [of cs "sanitize_character dop" "\<lambda>c' c''. sanitize_character dop c' = Inr c''", OF this]
  obtain cs'' where cs'': "map_throwing (sanitize_character dop) cs = Inr cs''"
    "list_all2 (\<lambda>c' c''. sanitize_character dop c' = Inr c'') cs cs''" by blast
  let ?s3 = "confirmImport dop time (handleImportFileSelect JSON_parse now2 (Loaded ?file) s2)"
  have s3: "app_settings ?s3 = JObj st" "app_characters ?s3 = cs''" "pendingImport ?s3 = None"
    by (simp_all add: handleImportFileSelect_def b' confirmImport_def updateSettings_def onUpdateCharacters_def cs'' Let_def)
  from E cs''(2) have "list_all2 ((\<lambda>c c'. export_character c = Inr c')
        OO (\<lambda>c' c''. sanitize_character dop c' = Inr c'')) (app_characters s) cs''"
    unfolding list.rel_compp by (rule relcomppI)
  then have "list_all2 (restored_character dop) (app_characters s) cs''"
  proof (rule list.rel_mono_strong)
    fix c c''
    assume "c \<in> set (app_characters s)"
      and "((\<lambda>c c'. export_character c = Inr c')
        OO (\<lambda>c' c''. sanitize_character dop c' = Inr c'')) c c''"
    with ty cf show "restored_character dop c c''"
      by (auto simp: list_all_iff intro: restore_character)
  qed
  with s3 st ex show ?thesis by (simp add: Let_def)
qed

text \<open>
  Claim C6 as stated, that only isolated scenarios' message lists change, fails for a
  connected scenario without a message list: the export gives every scenario a \<open>messages\<close>
  field, so the restored scenario has an empty list that the original did not have.
\<close>

theorem backup_roundtrip_counterexample:
  "array_items (field demo_json_character (ascii ''scenarios''))
     = [JObj [(ascii ''id'', JStr (ascii ''s1'')), (ascii ''isConnected'', JBool True)]]
   \<and> array_items (field (hd (app_characters demo_roundtrip)) (ascii ''scenarios''))
     = [JObj [(ascii ''id'', JStr (ascii ''s1'')), (ascii ''isConnected'', JBool True),
              (ascii ''messages'', JArr [])]]"
proof
  show "array_items (field demo_json_character (ascii ''scenarios''))
     = [JObj [(ascii ''id'', JStr (ascii ''s1'')), (ascii ''isConnected'', JBool True)]]"
    by (simp add: demo_json_character_def demo_scenario_def ascii_def)
  show "array_items (field (hd (app_characters demo_roundtrip)) (ascii ''scenarios''))
     = [JObj [(ascii ''id'', JStr (ascii ''s1'')), (ascii ''isConnected'', JBool True),
              (ascii ''messages'', JArr [])]]"
    by (rule demo_roundtrip_scenarios)
qed

theorem backup_roundtrip_witness:
  "list_all typed_character (app_characters (demo_state [demo_json_character]))
   \<and> list_all typed_configs (app_characters (demo_state [demo_json_character]))
   \<and> make_backup 5 (app_settings (demo_state [demo_json_character]))
        (app_characters (demo_state [demo_json_character])) = Inr demo_backup_data
   \<and> stringify_one (ascii ''backup'') demo_backup (backup_json demo_backup_data) \<noteq> []
   \<and> parse_one (ascii ''backup'') demo_backup
        (stringify_one (ascii ''backup'') demo_backup (backup_json demo_backup_data))
      = Some (backup_json demo_backup_data)
   \<and> app_settings demo_roundtrip = app_settings (demo_state [demo_json_character])
   \<and> list_all2 (restored_character (ascii ''offline prompt'')) [demo_json_character]
        (app_characters demo_roundtrip)
   \<and> pendingImport demo_roundtrip = None"
proof -
  let ?s = "demo_state [demo_json_character]"
  have chars: "app_characters ?s = [demo_json_character]" by (simp add: demo_state_def)
  have h1: "list_all typed_character (app_characters ?s)"
    unfolding chars by (simp add: demo_json_character_def demo_scenario_def ascii_def)
  have h2: "list_all typed_configs (app_characters ?s)"
    unfolding chars by (simp add: demo_json_character_def typed_configs_def ascii_def)
  have h3: "app_settings ?s = JObj [(ascii ''model'', JStr (ascii ''m''))]"
    by (simp add: demo_state_def)
  have st: "stringify_one (ascii ''backup'') demo_backup (backup_json demo_backup_data)
              = ascii ''backup''"
    by (simp add: stringify_one_def demo_backup_def)
  have h5: "stringify_one (ascii ''backup'') demo_backup (backup_json demo_backup_data) \<noteq> []"
    unfolding st by (simp add: ascii_def)
  have h6: "parse_one (ascii ''backup'') demo_backup
              (stringify_one (ascii ''backup'') demo_backup (backup_json demo_backup_data))
            = Some (backup_json demo_backup_data)"
    unfolding st by (simp add: parse_one_def demo_backup_def)
  from backup_roundtrip [of ?s "[(ascii ''model'', JStr (ascii ''m''))]" 5 demo_backup_data
      "stringify_one (ascii ''backup'') demo_backup" "parse_one (ascii ''backup'') demo_backup"
      "ascii ''offline prompt''" "ascii ''12:00''" 6 "demo_state []"]
    h1 h2 h3 demo_make_backup h5 h6
  have "app_settings demo_roundtrip = app_settings ?s
      \<and> list_all2 (restored_character (ascii ''offline prompt'')) (app_characters ?s)
           (app_characters demo_roundtrip)
      \<and> pendingImport demo_roundtrip = None"
    unfolding Let_def st demo_roundtrip_eq [symmetric] by blast
  with h1 h2 demo_make_backup h5 h6 show ?thesis
    unfolding chars by blast
qed

end
